theory Spec2Isabelle
  imports Complex_Main
begin

section \<open>Data model (types.ts)\<close>

text \<open>
  The TypeScript string-literal unions become datatypes; each comes with the text the
  source writes into template strings.
\<close>

datatype DataType =
  TEXT | INTEGER | LONG | DOUBLE | CURRENCY | DATETIME | BOOLEAN | AUTOINCREMENT | MEMO | OLE

datatype AttributeType = PRIMARY | NORMAL | MULTIVALUED | DERIVED

datatype Cardinality = Card_1_1 | Card_1_N | Card_N_1 | Card_N_M

datatype RefAction = CASCADE | SET_NULL | RESTRICT | NO_ACTION

datatype SQLDialect = ACCESS | SQLITE | MYSQL | POSTGRESQL

datatype SchemaMode = CONCEPTUAL | LOGICAL

fun dataTypeText :: "DataType \<Rightarrow> string" where
  "dataTypeText TEXT = ''TEXT''"
| "dataTypeText INTEGER = ''INTEGER''"
| "dataTypeText LONG = ''LONG''"
| "dataTypeText DOUBLE = ''DOUBLE''"
| "dataTypeText CURRENCY = ''CURRENCY''"
| "dataTypeText DATETIME = ''DATETIME''"
| "dataTypeText BOOLEAN = ''BOOLEAN''"
| "dataTypeText AUTOINCREMENT = ''AUTOINCREMENT''"
| "dataTypeText MEMO = ''MEMO''"
| "dataTypeText OLE = ''OLE''"

fun refActionText :: "RefAction \<Rightarrow> string" where
  "refActionText CASCADE = ''CASCADE''"
| "refActionText SET_NULL = ''SET NULL''"
| "refActionText RESTRICT = ''RESTRICT''"
| "refActionText NO_ACTION = ''NO ACTION''"

fun dialectText :: "SQLDialect \<Rightarrow> string" where
  "dialectText ACCESS = ''ACCESS''"
| "dialectText SQLITE = ''SQLITE''"
| "dialectText MYSQL = ''MYSQL''"
| "dialectText POSTGRESQL = ''POSTGRESQL''"

text \<open>
  The interfaces become records. Field names that several interfaces share
  (\<open>id\<close>, \<open>name\<close>, \<open>type\<close>, \<open>x\<close>, \<open>y\<close>) carry the interface as a prefix; optional
  fields (\<open>isForeignKey?\<close>, \<open>dataType?\<close>) are options, \<open>None\<close> when the property is
  absent.
\<close>

record Attribute =
  attr_id :: string
  attr_name :: string
  attr_type :: AttributeType
  dataType :: "DataType option"

record Column =
  col_id :: string
  col_name :: string
  col_type :: DataType
  primaryKey :: bool
  nullable :: bool
  unique :: bool
  autoIncrement :: bool
  isForeignKey :: "bool option"
  referencesTable :: "string option"
  referencesColumn :: "string option"

record Table =
  tbl_id :: string
  tbl_name :: string
  columns :: "Column list"
  tbl_x :: real
  tbl_y :: real

record Relationship =
  rel_id :: string
  sourceTableId :: string
  sourceColumnId :: string
  targetTableId :: string
  targetColumnId :: string
  cardinality :: Cardinality
  sourceOptional :: bool
  targetOptional :: bool
  onDelete :: RefAction
  onUpdate :: RefAction

record Schema =
  tables :: "Table list"
  relationships :: "Relationship list"

record Entity =
  ent_id :: string
  ent_name :: string
  attributes :: "Attribute list"
  ent_x :: real
  ent_y :: real

section \<open>Array helpers\<close>

text \<open>
  \<open>Array.prototype.find\<close> is \<^const>\<open>find\<close>, \<open>some\<close> is \<^const>\<open>list_ex\<close>, \<open>filter\<close>
  and \<open>map\<close> are the list functions. \<open>findIndex\<close> returns the first index whose
  element satisfies the predicate, and \<open>-1\<close> (here \<open>None\<close>) when there is none.
\<close>

fun findIndex :: "('a \<Rightarrow> bool) \<Rightarrow> 'a list \<Rightarrow> nat option" where
  "findIndex P [] = None"
| "findIndex P (x # xs) =
     (if P x then Some 0 else map_option Suc (findIndex P xs))"

text \<open>\<open>parts.join(sep)\<close>.\<close>

fun join :: "string \<Rightarrow> string list \<Rightarrow> string" where
  "join sep [] = []"
| "join sep [s] = s"
| "join sep (s # t # ss) = s @ sep @ join sep (t # ss)"

section \<open>Advisory analysis (RecommendationPanel, analyzeSchema)\<close>

text \<open>
  A finding is the object pushed by \<open>analyzeSchema\<close>. Its \<open>action\<close> is a closure that
  calls one of the panel's callbacks; the model keeps which callback and with which
  arguments. The display texts (\<open>title\<close>, \<open>description\<close>, \<open>actionLabel\<close>) are
  human-readable strings that no code reads and are left out.
\<close>

datatype Severity = Sev_high | Sev_medium | Sev_low | Sev_info

datatype FindingType =
  n_m_relationship | no_primary_key | duplicate_columns | missing_index | text_length

datatype Action =
  CreateJunctionTable Table Table
| AddConstraint Table string
| FixValidation string

record Finding =
  fnd_id :: string
  fnd_type :: FindingType
  severity :: Severity
  action :: Action

text \<open>Check 2 of the LOGICAL branch: tables without a primary key.\<close>

definition noPrimaryKeyIssues :: "Table list \<Rightarrow> Finding list" where
  "noPrimaryKeyIssues ts =
     concat (map (\<lambda>table.
       (let hasPrimaryKey = list_ex (\<lambda>col. primaryKey col) (columns table) in
        if \<not> hasPrimaryKey then
          [\<lparr>fnd_id = ''val-nopk-'' @ tbl_id table,
            fnd_type = no_primary_key,
            severity = Sev_high,
            action = AddConstraint table ''PRIMARY_KEY''\<rparr>]
        else [])) ts)"

text \<open>
  Check 3 of the LOGICAL branch: tables with duplicate column names. The source
  compares lower-cased names; \<open>lower\<close> stands for \<open>String.prototype.toLowerCase\<close>.
  \<open>indexOf\<close> is the first position of an equal element.
\<close>

definition duplicateColumnIssues :: "(string \<Rightarrow> string) \<Rightarrow> Table list \<Rightarrow> Finding list" where
  "duplicateColumnIssues lower ts =
     concat (map (\<lambda>table.
       (let columnNames = map (\<lambda>col. lower (col_name col)) (columns table);
            duplicateColumns =
              map fst (filter (\<lambda>(name, index). findIndex (\<lambda>n. n = name) columnNames \<noteq> Some index)
                (zip columnNames [0 ..< length columnNames]))
        in if length duplicateColumns > 0 then
          [\<lparr>fnd_id = ''val-dupcol-'' @ tbl_id table,
            fnd_type = duplicate_columns,
            severity = Sev_medium,
            action = FixValidation (''rename_duplicate_columns_'' @ tbl_id table)\<rparr>]
        else [])) ts)"

text \<open>
  The only check of the CONCEPTUAL branch that pushes a validation issue: entities
  without a primary attribute.
\<close>

definition conceptualNoPrimaryKeyIssues :: "Entity list \<Rightarrow> Finding list" where
  "conceptualNoPrimaryKeyIssues es =
     concat (map (\<lambda>entity.
       (let hasPrimaryKey = list_ex (\<lambda>attr. attr_type attr = PRIMARY) (attributes entity) in
        if \<not> hasPrimaryKey then
          [\<lparr>fnd_id = ''conc-nopk-'' @ ent_id entity,
            fnd_type = no_primary_key,
            severity = Sev_high,
            action = FixValidation (''add_primary_key_'' @ ent_id entity)\<rparr>]
        else [])) es)"

text \<open>
  The list \<open>newValidationIssues\<close> that \<open>analyzeSchema\<close> stores, in the order the source
  pushes: in LOGICAL mode every missing-primary-key issue (check 2), then every
  duplicate-column issue (check 3); in CONCEPTUAL mode the issues of the entities.
  Checks 1, 4 and 5 of the LOGICAL branch and check 2 of the CONCEPTUAL branch push
  recommendations, a separate list.
\<close>

definition validationIssues ::
  "SchemaMode \<Rightarrow> (string \<Rightarrow> string) \<Rightarrow> Table list \<Rightarrow> Entity list \<Rightarrow> Finding list" where
  "validationIssues schemaMode lower ts es =
     (if schemaMode = LOGICAL then noPrimaryKeyIssues ts @ duplicateColumnIssues lower ts
      else conceptualNoPrimaryKeyIssues es)"

text \<open>
  \<open>handleAddConstraint\<close> (App), the callback behind \<open>onAddConstraint\<close>: for
  \<open>'PRIMARY_KEY'\<close> on a table with at least one column, the first column becomes the
  only primary key; the result is the table stored into the node, \<open>None\<close> when no node
  is updated.
\<close>

definition handleAddConstraint :: "Table \<Rightarrow> string \<Rightarrow> Table option" where
  "handleAddConstraint table constraintType =
     (if constraintType = ''PRIMARY_KEY'' \<and> length (columns table) > 0 then
        Some (table\<lparr>columns :=
          map (\<lambda>(col, idx). col\<lparr>primaryKey := (idx = 0), nullable := (idx \<noteq> 0)\<rparr>)
            (zip (columns table) [0 ..< length (columns table)])\<rparr>)
      else None)"

section \<open>SQL generator (sqlGenerator.ts)\<close>

subsection \<open>Foreign-key resolution: \<open>addForeignKeyFields\<close>\<close>

text \<open>
  The \<open>switch\<close> of \<open>addForeignKeyFields\<close>: the id of the table that receives the column,
  the column's name and the primary key it copies; \<open>None\<close> is the \<open>continue\<close> of the
  1:1 case with no optional side. The caller has already left the loop body for N:M.
\<close>

fun fieldPlacement :: "Relationship \<Rightarrow> Column \<Rightarrow> Column \<Rightarrow> (string \<times> string \<times> Column) option" where
  "fieldPlacement rel sourcePK targetPK =
     (case cardinality rel of
        Card_1_N \<Rightarrow> Some (targetTableId rel, col_name sourcePK, sourcePK)
      | Card_N_1 \<Rightarrow> Some (sourceTableId rel, col_name targetPK, targetPK)
      | Card_1_1 \<Rightarrow>
          (if targetOptional rel then Some (targetTableId rel, col_name sourcePK, sourcePK)
           else if sourceOptional rel then Some (sourceTableId rel, col_name targetPK, targetPK)
           else None)
      | Card_N_M \<Rightarrow> None)"

text \<open>The object literal \<open>fkColumn\<close>; the optional foreign-key markers are absent.\<close>

definition fkColumn :: "Relationship \<Rightarrow> string \<Rightarrow> string \<Rightarrow> Column \<Rightarrow> Column" where
  "fkColumn rel manyTableId fkColumnName pkColumn =
     \<lparr>col_id = ''fk-'' @ rel_id rel @ ''-'' @ manyTableId,
      col_name = fkColumnName,
      col_type = col_type pkColumn,
      primaryKey = False,
      nullable = (sourceOptional rel \<or> targetOptional rel),
      unique = (cardinality rel = Card_1_1),
      autoIncrement = False,
      isForeignKey = None,
      referencesTable = None,
      referencesColumn = None\<rparr>"

text \<open>
  One iteration of the loop over the relationships, on the local array \<open>tables\<close>, in two
  parts. \<open>fkDecision\<close> is every read and guard of the loop body: \<open>None\<close> is a
  \<open>continue\<close> or a failed \<open>if\<close>, \<open>Some (tableIndex, fkCol)\<close> reaches the assignment, \<open>fkCol\<close> being the new column.
\<close>

definition fkDecision :: "Relationship \<Rightarrow> Table list \<Rightarrow> (nat \<times> Column) option" where
  "fkDecision rel ts =
     (case find (\<lambda>t. tbl_id t = sourceTableId rel) ts of None \<Rightarrow> None | Some sourceTable \<Rightarrow>
      (case find (\<lambda>t. tbl_id t = targetTableId rel) ts of None \<Rightarrow> None | Some targetTable \<Rightarrow>
      (case find (\<lambda>c. col_id c = sourceColumnId rel) (columns sourceTable) of None \<Rightarrow> None | Some sourceColumn \<Rightarrow>
      (case find (\<lambda>c. col_id c = targetColumnId rel) (columns targetTable) of None \<Rightarrow> None | Some targetColumn \<Rightarrow>
      if cardinality rel = Card_N_M then None else
      (case find (\<lambda>c. primaryKey c) (columns sourceTable) of None \<Rightarrow> None | Some sourcePK \<Rightarrow>
      (case find (\<lambda>c. primaryKey c) (columns targetTable) of None \<Rightarrow> None | Some targetPK \<Rightarrow>
      (case fieldPlacement rel sourcePK targetPK of None \<Rightarrow> None
      | Some (manyTableId, fkColumnName, pkColumn) \<Rightarrow>
      (case find (\<lambda>t. tbl_id t = manyTableId) ts of None \<Rightarrow> None | Some existingTable \<Rightarrow>
      if \<not> list_ex (\<lambda>c. col_name c = fkColumnName) (columns existingTable) then
        (case findIndex (\<lambda>t. tbl_id t = manyTableId) ts of None \<Rightarrow> None
         | Some tableIndex \<Rightarrow> Some (tableIndex, fkColumn rel manyTableId fkColumnName pkColumn))
      else None))))))))"

text \<open>
  The assignment \<open>tables[tableIndex] = {...tables[tableIndex], columns: [..., fkColumn]}\<close>.
\<close>

definition fkStep :: "Relationship \<Rightarrow> Table list \<Rightarrow> Table list" where
  "fkStep rel ts =
     (case fkDecision rel ts of None \<Rightarrow> ts
      | Some (tableIndex, fkCol) \<Rightarrow>
          ts[tableIndex := (ts ! tableIndex)\<lparr>columns := columns (ts ! tableIndex) @ [fkCol]\<rparr>])"

text \<open>
  The loop, and the function: the local array starts as a copy of the schema's tables
  (each table object and each column array copied), the relationships are returned as
  they came.
\<close>

definition fkLoop :: "Relationship list \<Rightarrow> Table list \<Rightarrow> Table list" where
  "fkLoop rels ts = foldl (\<lambda>acc rel. fkStep rel acc) ts rels"

definition addForeignKeyFields :: "Schema \<Rightarrow> Schema" where
  "addForeignKeyFields schema =
     \<lparr>tables = fkLoop (relationships schema) (map (\<lambda>t. t\<lparr>columns := columns t\<rparr>) (tables schema)),
      relationships = relationships schema\<rparr>"

subsection \<open>Rendering\<close>

definition typeMap :: "(string \<times> string) list" where
  "typeMap =
     [(''TEXT'', ''VARCHAR(255)''),
      (''INTEGER'', ''INTEGER''),
      (''LONG'', ''LONG''),
      (''DOUBLE'', ''DOUBLE''),
      (''CURRENCY'', ''CURRENCY''),
      (''DATETIME'', ''DATETIME''),
      (''BOOLEAN'', ''BIT''),
      (''AUTOINCREMENT'', ''COUNTER''),
      (''MEMO'', ''LONGTEXT''),
      (''OLE'', ''OLEOBJECT'')]"

definition mapDataType :: "string \<Rightarrow> string" where
  "mapDataType type = (case map_of typeMap type of Some s \<Rightarrow> s | None \<Rightarrow> ''VARCHAR(255)'')"

text \<open>
  \<open>generateHeader\<close> reads the clock; \<open>now\<close> is the text that
  \<open>new Date().toLocaleString('ru-RU')\<close> returned for this call.
\<close>

definition generateHeader :: "SQLDialect \<Rightarrow> string \<Rightarrow> string" where
  "generateHeader dialect now =
     ''-- SQL Schema Generated by SQL Schema Builder\<newline>-- Dialect: '' @ dialectText dialect
       @ ''\<newline>-- Generated: '' @ now @ ''\<newline>\<newline>''"

definition generateColumnDef :: "Column \<Rightarrow> string" where
  "generateColumnDef column =
     (let def0 = ''['' @ col_name column @ ''] '' @ mapDataType (dataTypeText (col_type column));
          def1 = (if autoIncrement column \<and> col_type column = AUTOINCREMENT
                  then def0 @ '' COUNTER'' else def0);
          def2 = (if \<not> nullable column then def1 @ '' NOT NULL'' else def1);
          def3 = (if unique column \<and> \<not> primaryKey column then def2 @ '' UNIQUE'' else def2)
      in def3)"

definition generateCreateTable :: "Table \<Rightarrow> string" where
  "generateCreateTable table =
     (let sql0 = ''CREATE TABLE ['' @ tbl_name table @ ''] (\<newline>'';
          columnDefs = map generateColumnDef (columns table);
          sql1 = sql0 @ join '',\<newline>'' (map (\<lambda>def. ''    '' @ def) columnDefs);
          primaryKeyColumns = filter (\<lambda>c. primaryKey c) (columns table);
          sql2 = (if length primaryKeyColumns > 0 then
                    (let pkCols = join '', '' (map (\<lambda>c. ''['' @ col_name c @ '']'') primaryKeyColumns)
                     in sql1 @ '',\<newline>    CONSTRAINT [PK_'' @ tbl_name table @ ''] PRIMARY KEY ('' @ pkCols @ '')'')
                  else sql1)
      in sql2 @ ''\<newline>);'')"

definition generateJunctionTable :: "Relationship \<Rightarrow> Table list \<Rightarrow> string" where
  "generateJunctionTable rel ts =
     (case find (\<lambda>t. tbl_id t = sourceTableId rel) ts of None \<Rightarrow> [] | Some sourceTable \<Rightarrow>
      (case find (\<lambda>t. tbl_id t = targetTableId rel) ts of None \<Rightarrow> [] | Some targetTable \<Rightarrow>
      (case find (\<lambda>c. primaryKey c) (columns sourceTable) of None \<Rightarrow> [] | Some sourcePK \<Rightarrow>
      (case find (\<lambda>c. primaryKey c) (columns targetTable) of None \<Rightarrow> [] | Some targetPK \<Rightarrow>
      (let junctionName = tbl_name sourceTable @ ''_'' @ tbl_name targetTable;
           sourceType = mapDataType (dataTypeText (col_type sourcePK));
           targetType = mapDataType (dataTypeText (col_type targetPK));
           sourceColName = col_name sourcePK;
           targetColName = col_name targetPK
       in ''CREATE TABLE ['' @ junctionName @ ''] (\<newline>''
          @ ''    ['' @ sourceColName @ ''] '' @ sourceType @ '' NOT NULL,\<newline>''
          @ ''    ['' @ targetColName @ ''] '' @ targetType @ '' NOT NULL,\<newline>''
          @ ''    CONSTRAINT [PK_'' @ junctionName @ ''] PRIMARY KEY (['' @ sourceColName @ ''], [''
              @ targetColName @ '']),\<newline>''
          @ ''    CONSTRAINT [FK_'' @ junctionName @ ''_'' @ tbl_name sourceTable @ ''] FOREIGN KEY ([''
              @ sourceColName @ '']) REFERENCES ['' @ tbl_name sourceTable @ '']([''
              @ col_name sourcePK @ '']),\<newline>''
          @ ''    CONSTRAINT [FK_'' @ junctionName @ ''_'' @ tbl_name targetTable @ ''] FOREIGN KEY ([''
              @ targetColName @ '']) REFERENCES ['' @ tbl_name targetTable @ '']([''
              @ col_name targetPK @ ''])\<newline>''
          @ '');\<newline>\<newline>'')))))"

text \<open>
  The \<open>switch\<close> of \<open>generateForeignKeyConstraint\<close>: the foreign-key column's name, the
  table that is altered and the primary key referenced; \<open>None\<close> is \<open>return ''\<close>.
\<close>

fun constraintPlacement ::
  "Relationship \<Rightarrow> Table \<Rightarrow> Table \<Rightarrow> Column \<Rightarrow> Column \<Rightarrow> (string \<times> Table \<times> Column) option" where
  "constraintPlacement rel sourceTable targetTable sourcePK targetPK =
     (case cardinality rel of
        Card_1_N \<Rightarrow> Some (col_name sourcePK, targetTable, sourcePK)
      | Card_N_1 \<Rightarrow> Some (col_name targetPK, sourceTable, targetPK)
      | Card_1_1 \<Rightarrow>
          (if targetOptional rel then Some (col_name sourcePK, targetTable, sourcePK)
           else if sourceOptional rel then Some (col_name targetPK, sourceTable, targetPK)
           else None)
      | Card_N_M \<Rightarrow> None)"

definition generateForeignKeyConstraint :: "Relationship \<Rightarrow> Table list \<Rightarrow> string" where
  "generateForeignKeyConstraint rel ts =
     (case find (\<lambda>t. tbl_id t = sourceTableId rel) ts of None \<Rightarrow> [] | Some sourceTable \<Rightarrow>
      (case find (\<lambda>t. tbl_id t = targetTableId rel) ts of None \<Rightarrow> [] | Some targetTable \<Rightarrow>
      (case find (\<lambda>c. primaryKey c) (columns sourceTable) of None \<Rightarrow> [] | Some sourcePK \<Rightarrow>
      (case find (\<lambda>c. primaryKey c) (columns targetTable) of None \<Rightarrow> [] | Some targetPK \<Rightarrow>
      if cardinality rel = Card_N_M then [] else
      (case constraintPlacement rel sourceTable targetTable sourcePK targetPK of None \<Rightarrow> []
      | Some (fkColumnName, fkTable, pkColumn) \<Rightarrow>
      (let fkName = ''FK_'' @ tbl_name fkTable @ ''_'' @ tbl_name targetTable;
           sql0 = ''ALTER TABLE ['' @ tbl_name fkTable @ '']\<newline>''
                  @ ''    ADD CONSTRAINT ['' @ fkName @ ''] FOREIGN KEY (['' @ fkColumnName @ ''])\<newline>''
                  @ ''    REFERENCES ['' @ tbl_name targetTable @ '']([''  @ col_name pkColumn @ ''])'';
           sql1 = (if onDelete rel \<noteq> NO_ACTION
                   then sql0 @ ''\<newline>    ON DELETE '' @ refActionText (onDelete rel) else sql0);
           sql2 = (if onUpdate rel \<noteq> NO_ACTION
                   then sql1 @ ''\<newline>    ON UPDATE '' @ refActionText (onUpdate rel) else sql1)
       in sql2 @ '';''))))))"

text \<open>
  \<open>generate\<close>. The three loops append to \<open>sql\<close>; the last one appends only a non-empty
  \<open>alterSQL\<close> (the empty string is falsy).
\<close>

definition generate :: "SQLDialect \<Rightarrow> string \<Rightarrow> Schema \<Rightarrow> string" where
  "generate dialect now schema =
     (let sql0 = generateHeader dialect now @ ''\<newline>\<newline>'';
          nonMNRelationships = filter (\<lambda>rel. cardinality rel \<noteq> Card_N_M) (relationships schema);
          mnRelationships = filter (\<lambda>rel. cardinality rel = Card_N_M) (relationships schema);
          sql1 = foldl (\<lambda>sql rel. sql @ generateJunctionTable rel (tables schema) @ ''\<newline>'')
                   sql0 mnRelationships;
          schemaWithFK = addForeignKeyFields
                   \<lparr>tables = tables schema, relationships = nonMNRelationships\<rparr>;
          sql2 = foldl (\<lambda>sql table. sql @ generateCreateTable table @ ''\<newline>\<newline>'')
                   sql1 (tables schemaWithFK);
          sql3 = foldl (\<lambda>sql rel.
                     (let alterSQL = generateForeignKeyConstraint rel (tables schemaWithFK)
                      in if alterSQL \<noteq> [] then sql @ alterSQL @ ''\<newline>'' else sql))
                   sql2 nonMNRelationships
      in sql3)"

section \<open>Mode converter (App, mode toggle)\<close>

text \<open>
  The two branches of the toggle's \<open>onClick\<close> map every node's data: a table to an
  entity (LOGICAL to CONCEPTUAL) and an entity to a table (CONCEPTUAL to LOGICAL). The
  object spread carries \<open>id\<close>, \<open>name\<close>, \<open>x\<close> and \<open>y\<close> over. (It also leaves the old
  \<open>columns\<close> on the entity object and the old \<open>attributes\<close> on the table object; the
  conversions read neither.) \<open>attr.dataType || ...\<close> takes the preserved type when there
  is one: every \<open>DataType\<close> is a non-empty string, hence truthy.
\<close>

definition toConceptual :: "Table \<Rightarrow> Entity" where
  "toConceptual table =
     \<lparr>ent_id = tbl_id table,
      ent_name = tbl_name table,
      attributes = map (\<lambda>col.
         \<lparr>attr_id = col_id col,
          attr_name = col_name col,
          attr_type = (if primaryKey col then PRIMARY else NORMAL),
          dataType = Some (col_type col)\<rparr>) (columns table),
      ent_x = tbl_x table,
      ent_y = tbl_y table\<rparr>"

definition toLogical :: "Entity \<Rightarrow> Table" where
  "toLogical entity =
     \<lparr>tbl_id = ent_id entity,
      tbl_name = ent_name entity,
      columns = map (\<lambda>attr.
         \<lparr>col_id = attr_id attr,
          col_name = attr_name attr,
          col_type = (case dataType attr of Some t \<Rightarrow> t
                      | None \<Rightarrow> (if attr_type attr = PRIMARY then INTEGER else TEXT)),
          primaryKey = (attr_type attr = PRIMARY),
          nullable = (attr_type attr \<noteq> PRIMARY),
          unique = (attr_type attr = PRIMARY),
          autoIncrement = (attr_type attr = PRIMARY),
          isForeignKey = None,
          referencesTable = None,
          referencesColumn = None\<rparr>) (attributes entity),
      tbl_x = ent_x entity,
      tbl_y = ent_y entity\<rparr>"

section \<open>\<open>addForeignKeyFields\<close> on a store of arrays and objects\<close>

text \<open>
  JavaScript arrays and objects are references. To tell a copy from a write in place,
  the function is modelled a second time on an explicit store: a reference is an
  address, every kind of cell the function touches has its own map from addresses to
  contents, and \<open>nextRef\<close> is the next free address (allocation never reuses one).
  \<open>Column\<close> and \<open>Relationship\<close> objects are never written by the function and stay
  values.
\<close>

type_synonym ref = nat

record TableObj =
  obj_id :: string
  obj_name :: string
  obj_columns :: ref
  obj_x :: real
  obj_y :: real

record SchemaObj =
  so_tables :: ref
  so_relationships :: ref

record Store =
  schemaObjs :: "ref \<Rightarrow> SchemaObj"
  tableArrays :: "ref \<Rightarrow> ref list"
  tableObjs :: "ref \<Rightarrow> TableObj"
  columnArrays :: "ref \<Rightarrow> Column list"
  relArrays :: "ref \<Rightarrow> Relationship list"
  nextRef :: ref

text \<open>The value a reference stands for.\<close>

definition readTable :: "Store \<Rightarrow> ref \<Rightarrow> Table" where
  "readTable st t =
     \<lparr>tbl_id = obj_id (tableObjs st t),
      tbl_name = obj_name (tableObjs st t),
      columns = columnArrays st (obj_columns (tableObjs st t)),
      tbl_x = obj_x (tableObjs st t),
      tbl_y = obj_y (tableObjs st t)\<rparr>"

definition readTables :: "Store \<Rightarrow> ref \<Rightarrow> Table list" where
  "readTables st arr = map (readTable st) (tableArrays st arr)"

definition readSchema :: "Store \<Rightarrow> ref \<Rightarrow> Schema" where
  "readSchema st s =
     \<lparr>tables = readTables st (so_tables (schemaObjs st s)),
      relationships = relArrays st (so_relationships (schemaObjs st s))\<rparr>"

text \<open>Array and object literals allocate.\<close>

definition newColumnArray :: "Column list \<Rightarrow> Store \<Rightarrow> Store \<times> ref" where
  "newColumnArray cs st =
     (st\<lparr>columnArrays := (columnArrays st)(nextRef st := cs), nextRef := Suc (nextRef st)\<rparr>, nextRef st)"

definition newTableObj :: "TableObj \<Rightarrow> Store \<Rightarrow> Store \<times> ref" where
  "newTableObj obj st =
     (st\<lparr>tableObjs := (tableObjs st)(nextRef st := obj), nextRef := Suc (nextRef st)\<rparr>, nextRef st)"

definition newTableArray :: "ref list \<Rightarrow> Store \<Rightarrow> Store \<times> ref" where
  "newTableArray rs st =
     (st\<lparr>tableArrays := (tableArrays st)(nextRef st := rs), nextRef := Suc (nextRef st)\<rparr>, nextRef st)"

definition newSchemaObj :: "SchemaObj \<Rightarrow> Store \<Rightarrow> Store \<times> ref" where
  "newSchemaObj obj st =
     (st\<lparr>schemaObjs := (schemaObjs st)(nextRef st := obj), nextRef := Suc (nextRef st)\<rparr>, nextRef st)"

text \<open>\<open>t => ({...t, columns: [...t.columns]})\<close> and \<open>schema.tables.map\<close> of it.\<close>

definition copyTable :: "ref \<Rightarrow> Store \<Rightarrow> Store \<times> ref" where
  "copyTable t st =
     (let (st1, cols) = newColumnArray (columnArrays st (obj_columns (tableObjs st t))) st
      in newTableObj ((tableObjs st1 t)\<lparr>obj_columns := cols\<rparr>) st1)"

fun copyTables :: "ref list \<Rightarrow> Store \<Rightarrow> Store \<times> ref list" where
  "copyTables [] st = (st, [])"
| "copyTables (t # ts) st =
     (let (st1, r) = copyTable t st; (st2, rs) = copyTables ts st1 in (st2, r # rs))"

text \<open>
  One iteration. The reads and guards are those of \<open>fkDecision\<close>, on the tables as the
  local array shows them. The assignment allocates the new column array and the new
  table object, then writes the array element: the only write to an existing cell.
\<close>

definition fkStepStore :: "ref \<Rightarrow> Relationship \<Rightarrow> Store \<Rightarrow> Store" where
  "fkStepStore tablesRef rel st =
     (case fkDecision rel (readTables st tablesRef) of None \<Rightarrow> st
      | Some (tableIndex, fkCol) \<Rightarrow>
          (let old = tableArrays st tablesRef ! tableIndex;
               (st1, cols) = newColumnArray (columnArrays st (obj_columns (tableObjs st old)) @ [fkCol]) st;
               (st2, obj) = newTableObj ((tableObjs st1 old)\<lparr>obj_columns := cols\<rparr>) st1
           in st2\<lparr>tableArrays := (tableArrays st2)
                  (tablesRef := (tableArrays st2 tablesRef)[tableIndex := obj])\<rparr>))"

text \<open>
  The function: copy the tables into a new array, run the loop on it, return a new
  schema object that holds the new array and the relationships array it was given.
\<close>

definition addForeignKeyFieldsStore :: "ref \<Rightarrow> Store \<Rightarrow> Store \<times> ref" where
  "addForeignKeyFieldsStore schema st =
     (let (st1, copies) = copyTables (tableArrays st (so_tables (schemaObjs st schema))) st;
          (st2, tablesRef) = newTableArray copies st1;
          st3 = foldl (\<lambda>acc rel. fkStepStore tablesRef rel acc) st2
                  (relArrays st2 (so_relationships (schemaObjs st2 schema)))
      in newSchemaObj \<lparr>so_tables = tablesRef,
                       so_relationships = so_relationships (schemaObjs st3 schema)\<rparr> st3)"

section \<open>\<open>generate\<close> on tables as the import delivers them\<close>

text \<open>
  The JSON import stores the nodes of a file unchecked, and \<open>generateSQL\<close> hands their
  data to \<open>generate\<close> as tables. An object that arrives as a table may therefore lack
  the property \<open>columns\<close> that the type \<open>Table\<close> promises. Reading \<open>columns\<close> then gives
  \<open>undefined\<close>, and calling \<open>find\<close> on it or spreading it throws a \<open>TypeError\<close>. This
  second model of \<open>generate\<close> has that exception as a value: \<open>raw_columns\<close> is \<open>None\<close>
  when the property is absent, and a result is \<open>Inl\<close> the exception thrown or \<open>Inr\<close>
  the value returned. Everything else is as in the first model.
\<close>

datatype Exception = TypeError

record RawTable =
  raw_id :: string
  raw_name :: string
  raw_columns :: "Column list option"
  raw_x :: real
  raw_y :: real

record RawSchema =
  raw_tables :: "RawTable list"
  raw_relationships :: "Relationship list"

text \<open>
  \<open>generateJunctionTable\<close>: both \<open>sourceTable.columns.find\<close> and
  \<open>targetTable.columns.find\<close> are evaluated, in this order, before the primary keys
  are tested.
\<close>

definition generateJunctionTableRaw :: "Relationship \<Rightarrow> RawTable list \<Rightarrow> Exception + string" where
  "generateJunctionTableRaw rel ts =
     (case find (\<lambda>t. raw_id t = sourceTableId rel) ts of None \<Rightarrow> Inr [] | Some sourceTable \<Rightarrow>
      (case find (\<lambda>t. raw_id t = targetTableId rel) ts of None \<Rightarrow> Inr [] | Some targetTable \<Rightarrow>
      (case raw_columns sourceTable of None \<Rightarrow> Inl TypeError | Some sourceColumns \<Rightarrow>
      (case raw_columns targetTable of None \<Rightarrow> Inl TypeError | Some targetColumns \<Rightarrow>
      (case find (\<lambda>c. primaryKey c) sourceColumns of None \<Rightarrow> Inr [] | Some sourcePK \<Rightarrow>
      (case find (\<lambda>c. primaryKey c) targetColumns of None \<Rightarrow> Inr [] | Some targetPK \<Rightarrow>
      (let junctionName = raw_name sourceTable @ ''_'' @ raw_name targetTable;
           sourceType = mapDataType (dataTypeText (col_type sourcePK));
           targetType = mapDataType (dataTypeText (col_type targetPK));
           sourceColName = col_name sourcePK;
           targetColName = col_name targetPK
       in Inr (''CREATE TABLE ['' @ junctionName @ ''] (\<newline>''
          @ ''    ['' @ sourceColName @ ''] '' @ sourceType @ '' NOT NULL,\<newline>''
          @ ''    ['' @ targetColName @ ''] '' @ targetType @ '' NOT NULL,\<newline>''
          @ ''    CONSTRAINT [PK_'' @ junctionName @ ''] PRIMARY KEY (['' @ sourceColName @ ''], [''
              @ targetColName @ '']),\<newline>''
          @ ''    CONSTRAINT [FK_'' @ junctionName @ ''_'' @ raw_name sourceTable @ ''] FOREIGN KEY ([''
              @ sourceColName @ '']) REFERENCES ['' @ raw_name sourceTable @ '']([''
              @ col_name sourcePK @ '']),\<newline>''
          @ ''    CONSTRAINT [FK_'' @ junctionName @ ''_'' @ raw_name targetTable @ ''] FOREIGN KEY ([''
              @ targetColName @ '']) REFERENCES ['' @ raw_name targetTable @ '']([''
              @ col_name targetPK @ ''])\<newline>''
          @ '');\<newline>\<newline>''))))))))"

text \<open>The first loop of \<open>generate\<close>; an exception leaves it.\<close>

fun junctionLoopRaw :: "Relationship list \<Rightarrow> RawTable list \<Rightarrow> string \<Rightarrow> Exception + string" where
  "junctionLoopRaw [] ts sql = Inr sql"
| "junctionLoopRaw (rel # rels) ts sql =
     (case generateJunctionTableRaw rel ts of Inl e \<Rightarrow> Inl e
      | Inr junction \<Rightarrow> junctionLoopRaw rels ts (sql @ junction @ ''\<newline>''))"

text \<open>
  \<open>schema.tables.map(t => ({...t, columns: [...t.columns]}))\<close>: the spread of the
  columns throws at the first table without them. The copies have their columns
  array, so the loop over the relationships is the one of the first model.
\<close>

fun copyRawTables :: "RawTable list \<Rightarrow> Exception + Table list" where
  "copyRawTables [] = Inr []"
| "copyRawTables (t # ts) =
     (case raw_columns t of None \<Rightarrow> Inl TypeError
      | Some cs \<Rightarrow>
          (case copyRawTables ts of Inl e \<Rightarrow> Inl e
           | Inr copies \<Rightarrow>
               Inr (\<lparr>tbl_id = raw_id t, tbl_name = raw_name t, columns = cs,
                     tbl_x = raw_x t, tbl_y = raw_y t\<rparr> # copies)))"

definition addForeignKeyFieldsRaw :: "RawSchema \<Rightarrow> Exception + Schema" where
  "addForeignKeyFieldsRaw schema =
     (case copyRawTables (raw_tables schema) of Inl e \<Rightarrow> Inl e
      | Inr copies \<Rightarrow>
          Inr \<lparr>tables = fkLoop (raw_relationships schema) copies,
               relationships = raw_relationships schema\<rparr>)"

text \<open>
  \<open>generate\<close>. After \<open>addForeignKeyFields\<close> has returned, the CREATE TABLE and ALTER
  TABLE loops run on its copies.
\<close>

definition generateRaw :: "SQLDialect \<Rightarrow> string \<Rightarrow> RawSchema \<Rightarrow> Exception + string" where
  "generateRaw dialect now schema =
     (let sql0 = generateHeader dialect now @ ''\<newline>\<newline>'';
          nonMNRelationships = filter (\<lambda>rel. cardinality rel \<noteq> Card_N_M) (raw_relationships schema);
          mnRelationships = filter (\<lambda>rel. cardinality rel = Card_N_M) (raw_relationships schema)
      in case junctionLoopRaw mnRelationships (raw_tables schema) sql0 of Inl e \<Rightarrow> Inl e
         | Inr sql1 \<Rightarrow>
        (case addForeignKeyFieldsRaw
                \<lparr>raw_tables = raw_tables schema, raw_relationships = nonMNRelationships\<rparr> of
           Inl e \<Rightarrow> Inl e
         | Inr schemaWithFK \<Rightarrow>
            (let sql2 = foldl (\<lambda>sql table. sql @ generateCreateTable table @ ''\<newline>\<newline>'')
                          sql1 (tables schemaWithFK);
                 sql3 = foldl (\<lambda>sql rel.
                            (let alterSQL = generateForeignKeyConstraint rel (tables schemaWithFK)
                             in if alterSQL \<noteq> [] then sql @ alterSQL @ ''\<newline>'' else sql))
                          sql2 nonMNRelationships
             in Inr sql3)))"

text \<open>A schema of the declared type, as the objects \<open>generate\<close> receives.\<close>

definition rawTable :: "Table \<Rightarrow> RawTable" where
  "rawTable t =
     \<lparr>raw_id = tbl_id t, raw_name = tbl_name t, raw_columns = Some (columns t),
      raw_x = tbl_x t, raw_y = tbl_y t\<rparr>"

definition rawSchema :: "Schema \<Rightarrow> RawSchema" where
  "rawSchema S = \<lparr>raw_tables = map rawTable (tables S), raw_relationships = relationships S\<rparr>"

section \<open>Notions used in the statements\<close>

subsection \<open>The placement rule\<close>

text \<open>
  Following the specification's words (section 4.1). The declared column ids of a
  relationship resolve when both endpoint tables exist and hold a column with the
  declared id.
\<close>

definition declaredColumnsResolve :: "Relationship \<Rightarrow> Table list \<Rightarrow> bool" where
  "declaredColumnsResolve rel ts =
     (case find (\<lambda>t. tbl_id t = sourceTableId rel) ts of None \<Rightarrow> False | Some sourceTable \<Rightarrow>
      (case find (\<lambda>t. tbl_id t = targetTableId rel) ts of None \<Rightarrow> False | Some targetTable \<Rightarrow>
      find (\<lambda>c. col_id c = sourceColumnId rel) (columns sourceTable) \<noteq> None \<and>
      find (\<lambda>c. col_id c = targetColumnId rel) (columns targetTable) \<noteq> None))"

text \<open>
  The placement rule: the id of the table that carries the foreign key and the primary
  key it copies. 1:N puts it on the target, copying the source's key; N:1 on the
  source, copying the target's key; 1:1 on the target if the target is optional, else
  on the source if the source is optional, else nowhere. There is no placement when an
  endpoint table is missing or has no primary key, nor for N:M.
\<close>

definition placementOf :: "Relationship \<Rightarrow> Table list \<Rightarrow> (string \<times> Column) option" where
  "placementOf rel ts =
     (case find (\<lambda>t. tbl_id t = sourceTableId rel) ts of None \<Rightarrow> None | Some sourceTable \<Rightarrow>
      (case find (\<lambda>t. tbl_id t = targetTableId rel) ts of None \<Rightarrow> None | Some targetTable \<Rightarrow>
      (case find (\<lambda>c. primaryKey c) (columns sourceTable) of None \<Rightarrow> None | Some sourcePK \<Rightarrow>
      (case find (\<lambda>c. primaryKey c) (columns targetTable) of None \<Rightarrow> None | Some targetPK \<Rightarrow>
      (case cardinality rel of
         Card_1_N \<Rightarrow> Some (targetTableId rel, sourcePK)
       | Card_N_1 \<Rightarrow> Some (sourceTableId rel, targetPK)
       | Card_1_1 \<Rightarrow>
           (if targetOptional rel then Some (targetTableId rel, sourcePK)
            else if sourceOptional rel then Some (sourceTableId rel, targetPK)
            else None)
       | Card_N_M \<Rightarrow> None)))))"

text \<open>The table with id \<open>m\<close> has a column named like the key \<open>pk\<close>.\<close>

definition fkNamePresent :: "string \<Rightarrow> Column \<Rightarrow> Table list \<Rightarrow> bool" where
  "fkNamePresent m pk ts =
     (case find (\<lambda>t. tbl_id t = m) ts of None \<Rightarrow> False
      | Some t \<Rightarrow> list_ex (\<lambda>c. col_name c = col_name pk) (columns t))"

definition appendColumn :: "nat \<Rightarrow> Column \<Rightarrow> Table list \<Rightarrow> Table list" where
  "appendColumn i c ts = ts[i := (ts ! i)\<lparr>columns := columns (ts ! i) @ [c]\<rparr>]"

subsection \<open>Tables that only grow\<close>

text \<open>
  \<open>grows R t t'\<close>: \<open>t'\<close> is \<open>t\<close> with columns appended, none of them a primary key and
  each related by \<open>R\<close> to the table's id; \<open>extends\<close> lifts this to table lists, position
  by position. \<open>fkColumnOf rels ts m c\<close>: \<open>c\<close> is the foreign-key column that some
  relationship of \<open>rels\<close>, placed on the table with id \<open>m\<close>, gives rise to.
\<close>

definition grows :: "(string \<Rightarrow> Column \<Rightarrow> bool) \<Rightarrow> Table \<Rightarrow> Table \<Rightarrow> bool" where
  "grows R t t' =
     (\<exists>extra. t' = t\<lparr>columns := columns t @ extra\<rparr> \<and>
        (\<forall>c\<in>set extra. \<not> primaryKey c \<and> R (tbl_id t) c))"

definition extends :: "(string \<Rightarrow> Column \<Rightarrow> bool) \<Rightarrow> Table list \<Rightarrow> Table list \<Rightarrow> bool" where
  "extends R ts ts' = list_all2 (grows R) ts ts'"

definition fkColumnOf :: "Relationship list \<Rightarrow> Table list \<Rightarrow> string \<Rightarrow> Column \<Rightarrow> bool" where
  "fkColumnOf rels ts m c =
     (\<exists>rel\<in>set rels. \<exists>pk. placementOf rel ts = Some (m, pk) \<and> c = fkColumn rel m (col_name pk) pk)"

subsection \<open>The parts of the generated text\<close>

text \<open>
  What \<open>generate\<close> binds to \<open>nonMNRelationships\<close> and \<open>schemaWithFK.tables\<close>, and what
  each of its three loops appends.
\<close>

definition nonMN :: "Schema \<Rightarrow> Relationship list" where
  "nonMN S = filter (\<lambda>rel. cardinality rel \<noteq> Card_N_M) (relationships S)"

definition resolvedTables :: "Schema \<Rightarrow> Table list" where
  "resolvedTables S = tables (addForeignKeyFields \<lparr>tables = tables S, relationships = nonMN S\<rparr>)"

definition junctionSection :: "Schema \<Rightarrow> string" where
  "junctionSection S =
     concat (map (\<lambda>rel. generateJunctionTable rel (tables S) @ ''\<newline>'')
       (filter (\<lambda>rel. cardinality rel = Card_N_M) (relationships S)))"

definition createSection :: "Schema \<Rightarrow> string" where
  "createSection S = concat (map (\<lambda>table. generateCreateTable table @ ''\<newline>\<newline>'') (resolvedTables S))"

definition alterStatements :: "Schema \<Rightarrow> string list" where
  "alterStatements S =
     filter (\<lambda>alterSQL. alterSQL \<noteq> [])
       (map (\<lambda>rel. generateForeignKeyConstraint rel (resolvedTables S)) (nonMN S))"

definition alterSection :: "Schema \<Rightarrow> string" where
  "alterSection S = concat (map (\<lambda>alterSQL. alterSQL @ ''\<newline>'') (alterStatements S))"

subsection \<open>The junction table of the specification\<close>



subsection \<open>Stores\<close>

text \<open>
  \<open>unchangedBelow n st st'\<close>: every cell with an address below \<open>n\<close> holds in \<open>st'\<close> what
  it held in \<open>st\<close>. A schema is well formed in a store when everything reachable from
  it has been allocated.
\<close>

definition unchangedBelow :: "ref \<Rightarrow> Store \<Rightarrow> Store \<Rightarrow> bool" where
  "unchangedBelow n st st' =
     (\<forall>r<n. schemaObjs st' r = schemaObjs st r \<and> tableArrays st' r = tableArrays st r \<and>
            tableObjs st' r = tableObjs st r \<and> columnArrays st' r = columnArrays st r \<and>
            relArrays st' r = relArrays st r)"

definition allocated :: "Store \<Rightarrow> ref list \<Rightarrow> bool" where
  "allocated st rs = (\<forall>t\<in>set rs. t < nextRef st \<and> obj_columns (tableObjs st t) < nextRef st)"

definition wellFormed :: "Store \<Rightarrow> ref \<Rightarrow> bool" where
  "wellFormed st s =
     (s < nextRef st \<and> so_tables (schemaObjs st s) < nextRef st \<and>
      so_relationships (schemaObjs st s) < nextRef st \<and>
      allocated st (tableArrays st (so_tables (schemaObjs st s))))"

section \<open>Concrete schemas\<close>

text \<open>
  Builders for the examples: a primary-key column as the table editor creates it, a
  table at the origin of the canvas, a relationship without referential actions.
\<close>

definition pkColumn :: "string \<Rightarrow> string \<Rightarrow> DataType \<Rightarrow> Column" where
  "pkColumn cid n ty =
     \<lparr>col_id = cid, col_name = n, col_type = ty, primaryKey = True, nullable = False,
      unique = True, autoIncrement = False, isForeignKey = None, referencesTable = None,
      referencesColumn = None\<rparr>"

definition mkTable :: "string \<Rightarrow> string \<Rightarrow> Column list \<Rightarrow> Table" where
  "mkTable tid n cs = \<lparr>tbl_id = tid, tbl_name = n, columns = cs, tbl_x = 0, tbl_y = 0\<rparr>"

definition mkRel ::
  "string \<Rightarrow> string \<Rightarrow> string \<Rightarrow> string \<Rightarrow> string \<Rightarrow> Cardinality \<Rightarrow> bool \<Rightarrow> bool \<Rightarrow> Relationship" where
  "mkRel rid st sc tt tc cd so to =
     \<lparr>rel_id = rid, sourceTableId = st, sourceColumnId = sc, targetTableId = tt,
      targetColumnId = tc, cardinality = cd, sourceOptional = so, targetOptional = to,
      onDelete = NO_ACTION, onUpdate = NO_ACTION\<rparr>"


text \<open>The same two tables, the customer's key being a text.\<close>

definition textKeySchema :: Schema where
  "textKeySchema =
     \<lparr>tables = [mkTable ''t1'' ''Customer'' [pkColumn ''c1'' ''id'' TEXT],
                mkTable ''t2'' ''Invoice'' [pkColumn ''c2'' ''id'' INTEGER]],
      relationships = [mkRel ''r1'' ''t1'' ''c1'' ''t2'' ''c2'' Card_1_N False False]\<rparr>"

text \<open>Customer 1:N Orders with distinct key names; the target side is optional.\<close>

definition ordersSchema :: Schema where
  "ordersSchema =
     \<lparr>tables = [mkTable ''t1'' ''Customer'' [pkColumn ''c1'' ''customer_id'' LONG],
                mkTable ''t2'' ''Orders'' [pkColumn ''c2'' ''order_id'' AUTOINCREMENT]],
      relationships = [mkRel ''r1'' ''t1'' ''c1'' ''t2'' ''c2'' Card_1_N False True]\<rparr>"

text \<open>
  Orders N:1 Customer whose declared source column (\<open>gone\<close>) has been removed from
  Orders: a dangling column id.
\<close>

definition danglingSchema :: Schema where
  "danglingSchema =
     \<lparr>tables = [mkTable ''t1'' ''Orders'' [pkColumn ''c1'' ''order_id'' INTEGER],
                mkTable ''t2'' ''Customer'' [pkColumn ''c2'' ''customer_id'' INTEGER]],
      relationships = [mkRel ''r1'' ''t1'' ''gone'' ''t2'' ''c2'' Card_N_1 False False]\<rparr>"

text \<open>
  Two relationships; the declared source column of the first, \<open>fk-r2-a\<close>, is on no
  table, and is the id the pass gives to the column it adds to \<open>A\<close> for the second.
\<close>

definition lateIdSchema :: Schema where
  "lateIdSchema =
     \<lparr>tables = [mkTable ''a'' ''A'' [pkColumn ''ca'' ''a_id'' INTEGER],
                mkTable ''b'' ''B'' [pkColumn ''cb'' ''b_id'' INTEGER]],
      relationships = [mkRel ''r1'' ''a'' ''fk-r2-a'' ''b'' ''cb'' Card_1_N False False,
                       mkRel ''r2'' ''b'' ''cb'' ''a'' ''ca'' Card_1_N False False]\<rparr>"

text \<open>Person 1:1 Passport, both sides optional.\<close>

definition passportSchema :: Schema where
  "passportSchema =
     \<lparr>tables = [mkTable ''t1'' ''Person'' [pkColumn ''c1'' ''person_id'' INTEGER],
                mkTable ''t2'' ''Passport'' [pkColumn ''c2'' ''passport_id'' INTEGER]],
      relationships = [mkRel ''r1'' ''t1'' ''c1'' ''t2'' ''c2'' Card_1_1 True True]\<rparr>"

text \<open>
  \<open>passportSchema\<close> with declared column ids that are on no table. They have the form
  of connection-handle ids (\<open>{id}-source\<close>, \<open>{id}-target\<close>); the connect gesture stores
  the ids of the two handles as the relationship's declared column ids.
\<close>

definition passportHandleSchema :: Schema where
  "passportHandleSchema =
     \<lparr>tables = [mkTable ''t1'' ''Person'' [pkColumn ''c1'' ''person_id'' INTEGER],
                mkTable ''t2'' ''Passport'' [pkColumn ''c2'' ''passport_id'' INTEGER]],
      relationships = [mkRel ''r1'' ''t1'' ''c1-source'' ''t2'' ''c2-target'' Card_1_1 True True]\<rparr>"

text \<open>One table object without \<open>columns\<close>, no relationship.\<close>

definition columnlessSchema :: RawSchema where
  "columnlessSchema =
     \<lparr>raw_tables = [\<lparr>raw_id = ''t1'', raw_name = ''Customer'', raw_columns = None,
                      raw_x = 0, raw_y = 0\<rparr>],
      raw_relationships = []\<rparr>"

text \<open>Student N:M Course, the second scenario of the specification.\<close>

definition studentCourseSchema :: Schema where
  "studentCourseSchema =
     \<lparr>tables = [mkTable ''t1'' ''Student'' [pkColumn ''c1'' ''id'' INTEGER],
                mkTable ''t2'' ''Course'' [pkColumn ''c2'' ''id'' INTEGER]],
      relationships = [mkRel ''r1'' ''t1'' ''c1'' ''t2'' ''c2'' Card_N_M False False]\<rparr>"

text \<open>
  \<open>ordersSchema\<close> laid out in a store: the column arrays at 0 and 1, the table objects
  at 2 and 3, the tables array at 4, the relationships array at 5, the schema object
  at 6.
\<close>

definition ordersStore :: Store where
  "ordersStore =
     \<lparr>schemaObjs = (\<lambda>_. \<lparr>so_tables = 0, so_relationships = 0\<rparr>)
        (6 := \<lparr>so_tables = 4, so_relationships = 5\<rparr>),
      tableArrays = (\<lambda>_. [])(4 := [2, 3]),
      tableObjs = (\<lambda>_. \<lparr>obj_id = [], obj_name = [], obj_columns = 0, obj_x = 0, obj_y = 0\<rparr>)
        (2 := \<lparr>obj_id = ''t1'', obj_name = ''Customer'', obj_columns = 0, obj_x = 0, obj_y = 0\<rparr>,
         3 := \<lparr>obj_id = ''t2'', obj_name = ''Orders'', obj_columns = 1, obj_x = 0, obj_y = 0\<rparr>),
      columnArrays = (\<lambda>_. [])
        (0 := [pkColumn ''c1'' ''customer_id'' LONG],
         1 := [pkColumn ''c2'' ''order_id'' AUTOINCREMENT]),
      relArrays = (\<lambda>_. [])(5 := [mkRel ''r1'' ''t1'' ''c1'' ''t2'' ''c2'' Card_1_N False True]),
      nextRef = 7\<rparr>"

section \<open>Properties of the advisory analysis\<close>

lemma filter_noPrimaryKeyIssues:
  "filter (\<lambda>i. fnd_type i = no_primary_key) (noPrimaryKeyIssues ts) = noPrimaryKeyIssues ts"
  by (induction ts) (simp_all add: noPrimaryKeyIssues_def)

lemma filter_duplicateColumnIssues:
  "filter (\<lambda>i. fnd_type i = no_primary_key) (duplicateColumnIssues lower ts) = []"
  by (induction ts) (simp_all add: duplicateColumnIssues_def Let_def)

lemma noPrimaryKeyIssues_map:
  "noPrimaryKeyIssues ts =
     map (\<lambda>table. \<lparr>fnd_id = ''val-nopk-'' @ tbl_id table, fnd_type = no_primary_key,
                    severity = Sev_high, action = AddConstraint table ''PRIMARY_KEY''\<rparr>)
       (filter (\<lambda>table. \<not> list_ex (\<lambda>col. primaryKey col) (columns table)) ts)"
  by (induction ts) (simp_all add: noPrimaryKeyIssues_def)

text \<open>
  The remediation behind the issue: on a table with at least one column it produces a
  table that has a primary key; on a table without columns it does nothing.
\<close>

lemma handleAddConstraint_primary:
  "(case handleAddConstraint table ''PRIMARY_KEY'' of
      None \<Rightarrow> columns table = []
    | Some table' \<Rightarrow> list_ex (\<lambda>col. primaryKey col) (columns table'))"
  by (cases "columns table") (simp_all add: handleAddConstraint_def upt_conv_Cons del: upt_Suc)

text \<open>
  Claim C9. In LOGICAL mode the validation issues of kind \<open>no_primary_key\<close> are, in
  table order, exactly one per table that has no column flagged \<open>primaryKey\<close>: each has
  severity high and the action \<open>onAddConstraint(table, 'PRIMARY_KEY')\<close> bound to that
  very table. A table with a primary-key column contributes none.
\<close>

theorem no_primary_key_issues_exact:
  "filter (\<lambda>i. fnd_type i = no_primary_key) (validationIssues LOGICAL lower ts es) =
     map (\<lambda>table. \<lparr>fnd_id = ''val-nopk-'' @ tbl_id table, fnd_type = no_primary_key,
                    severity = Sev_high, action = AddConstraint table ''PRIMARY_KEY''\<rparr>)
       (filter (\<lambda>table. \<not> list_ex (\<lambda>col. primaryKey col) (columns table)) ts)"
  using noPrimaryKeyIssues_map[of ts]
  by (simp add: validationIssues_def filter_noPrimaryKeyIssues filter_duplicateColumnIssues)

section \<open>Lemmas on the array helpers\<close>

lemma find_findIndex:
  "find P xs = (case findIndex P xs of None \<Rightarrow> None | Some i \<Rightarrow> Some (xs ! i))"
  by (induction xs) (auto split: option.splits)

lemma findIndex_SomeD:
  "findIndex P xs = Some i \<Longrightarrow> i < length xs \<and> P (xs ! i) \<and> (\<forall>j<i. \<not> P (xs ! j))"
proof (induction xs arbitrary: i)
  case Nil then show ?case by simp
next
  case (Cons x xs)
  show ?case
  proof (cases "P x")
    case True with Cons.prems show ?thesis by simp
  next
    case False
    with Cons.prems obtain k where k: "findIndex P xs = Some k" "i = Suc k" by auto
    from Cons.IH[OF k(1)] False k(2) show ?thesis by (auto simp: less_Suc_eq_0_disj)
  qed
qed

lemma find_append_none: "find P ys = None \<Longrightarrow> find P (xs @ ys) = find P xs"
  by (induction xs) auto

lemma foldl_append: "foldl (\<lambda>sql x. sql @ f x) s xs = s @ concat (map f xs)"
  by (induction xs arbitrary: s) simp_all

lemma foldl_append_nonempty:
  "foldl (\<lambda>sql x. (let a = g x in if a \<noteq> [] then sql @ a @ e else sql)) s xs =
     s @ concat (map (\<lambda>a. a @ e) (filter (\<lambda>a. a \<noteq> []) (map g xs)))"
  by (induction xs arbitrary: s) (simp_all add: Let_def)

lemmas scenario_defs = pkColumn_def mkTable_def mkRel_def

section \<open>Properties of the foreign-key resolution\<close>

subsection \<open>One iteration\<close>

text \<open>
  The loop body in terms of the placement rule: it acts only when the declared column
  ids resolve and the rule gives a placement, and then only when the destination has
  no column of the key's name yet; it then appends the foreign-key column to the first
  table with the destination's id.
\<close>

lemma placementOf_table:
  "placementOf rel ts = Some (m, pk) \<Longrightarrow> \<exists>i. findIndex (\<lambda>t. tbl_id t = m) ts = Some i"
  by (auto simp: placementOf_def find_findIndex split: option.splits Cardinality.splits if_splits)

lemma fkStep_eq:
  "fkStep rel ts =
     (if declaredColumnsResolve rel ts then
        (case placementOf rel ts of None \<Rightarrow> ts
         | Some (m, pk) \<Rightarrow>
             (case findIndex (\<lambda>t. tbl_id t = m) ts of None \<Rightarrow> ts
              | Some i \<Rightarrow>
                  if list_ex (\<lambda>c. col_name c = col_name pk) (columns (ts ! i)) then ts
                  else appendColumn i (fkColumn rel m (col_name pk) pk) ts))
      else ts)"
  unfolding fkStep_def fkDecision_def declaredColumnsResolve_def placementOf_def appendColumn_def
  by (auto simp: find_findIndex split: option.splits Cardinality.splits)

lemma fkDecision_index: "fkDecision rel ts = Some (i, c) \<Longrightarrow> i < length ts"
  by (auto simp: fkDecision_def split: option.splits if_splits dest: findIndex_SomeD)

lemma fkColumn_not_primary: "\<not> primaryKey (fkColumn rel m n pk)"
  by (simp add: fkColumn_def)

lemma fkStep_fixed:
  "\<not> declaredColumnsResolve rel ts \<or> placementOf rel ts = None \<or>
   (\<exists>m pk. placementOf rel ts = Some (m, pk) \<and> fkNamePresent m pk ts) \<Longrightarrow> fkStep rel ts = ts"
  by (auto simp: fkStep_eq fkNamePresent_def find_findIndex split: option.splits)

lemma fkLoop_Nil: "fkLoop [] ts = ts"
  by (simp add: fkLoop_def)

lemma fkLoop_Cons: "fkLoop (rel # rels) ts = fkLoop rels (fkStep rel ts)"
  by (simp add: fkLoop_def)

lemma fkLoop_fixed: "(\<And>rel. rel \<in> set rels \<Longrightarrow> fkStep rel ts = ts) \<Longrightarrow> fkLoop rels ts = ts"
  by (induction rels) (simp_all add: fkLoop_Nil fkLoop_Cons)

lemma addForeignKeyFields_tables:
  "tables (addForeignKeyFields S) = fkLoop (relationships S) (tables S)"
  by (simp add: addForeignKeyFields_def)

subsection \<open>Tables only grow\<close>

lemma grows_refl: "grows R t t"
  unfolding grows_def by (rule exI[of _ "[]"]) simp

lemma grows_trans: "grows R t t' \<Longrightarrow> grows R t' t'' \<Longrightarrow> grows R t t''"
  unfolding grows_def
proof (elim exE conjE)
  fix e1 e2
  assume a: "t' = t\<lparr>columns := columns t @ e1\<rparr>" "\<forall>c\<in>set e1. \<not> primaryKey c \<and> R (tbl_id t) c"
     "t'' = t'\<lparr>columns := columns t' @ e2\<rparr>" "\<forall>c\<in>set e2. \<not> primaryKey c \<and> R (tbl_id t') c"
  show "\<exists>extra. t'' = t\<lparr>columns := columns t @ extra\<rparr> \<and>
        (\<forall>c\<in>set extra. \<not> primaryKey c \<and> R (tbl_id t) c)"
    by (rule exI[of _ "e1 @ e2"]) (use a in auto)
qed

lemma grows_mono: "grows R t t' \<Longrightarrow> (\<And>m c. R m c \<Longrightarrow> R' m c) \<Longrightarrow> grows R' t t'"
  unfolding grows_def by blast

lemma grows_tbl_id: "grows R t t' \<Longrightarrow> tbl_id t' = tbl_id t"
  unfolding grows_def by auto

lemma grows_find_pk:
  "grows R t t' \<Longrightarrow> find (\<lambda>c. primaryKey c) (columns t') = find (\<lambda>c. primaryKey c) (columns t)"
  unfolding grows_def by (auto simp: find_None_iff intro!: find_append_none)

lemma grows_find_col:
  "grows R t t' \<Longrightarrow> find P (columns t) \<noteq> None \<Longrightarrow> find P (columns t') \<noteq> None"
  unfolding grows_def by (auto simp: find_None_iff)

lemma grows_name:
  "grows R t t' \<Longrightarrow> list_ex P (columns t) \<Longrightarrow> list_ex P (columns t')"
  unfolding grows_def by (auto simp: list_ex_iff)

lemma extends_refl: "extends R ts ts"
  unfolding extends_def by (simp add: list_all2_refl grows_refl)

lemma extends_trans: "extends R ts ts' \<Longrightarrow> extends R ts' ts'' \<Longrightarrow> extends R ts ts''"
  unfolding extends_def
  using list_all2_trans[of "grows R" "grows R" "grows R" ts ts' ts''] grows_trans by blast

lemma extends_mono: "extends R ts ts' \<Longrightarrow> (\<And>m c. R m c \<Longrightarrow> R' m c) \<Longrightarrow> extends R' ts ts'"
  unfolding extends_def by (erule list_all2_mono) (auto intro: grows_mono)

lemma extends_length: "extends R ts ts' \<Longrightarrow> length ts' = length ts"
  unfolding extends_def by (simp add: list_all2_lengthD)

lemma extends_nth: "extends R ts ts' \<Longrightarrow> i < length ts \<Longrightarrow> grows R (ts ! i) (ts' ! i)"
  unfolding extends_def by (simp add: list_all2_nthD)

lemma extends_findIndex:
  "extends R ts ts' \<Longrightarrow> findIndex (\<lambda>t. tbl_id t = m) ts' = findIndex (\<lambda>t. tbl_id t = m) ts"
  unfolding extends_def
  by (induction ts ts' rule: list_all2_induct) (auto simp: grows_tbl_id)

lemma extends_find:
  assumes "extends R ts ts'" "find (\<lambda>t. tbl_id t = m) ts = Some t"
  shows "\<exists>t'. find (\<lambda>t. tbl_id t = m) ts' = Some t' \<and> grows R t t'"
proof -
  from assms(2) obtain i where i: "findIndex (\<lambda>t. tbl_id t = m) ts = Some i" "t = ts ! i"
    by (auto simp: find_findIndex split: option.splits)
  from findIndex_SomeD[OF i(1)] have "i < length ts" by simp
  with assms(1) have "grows R (ts ! i) (ts' ! i)" by (rule extends_nth)
  moreover have "find (\<lambda>t. tbl_id t = m) ts' = Some (ts' ! i)"
    using extends_findIndex[OF assms(1), of m] i(1) by (simp add: find_findIndex)
  ultimately show ?thesis using i(2) by simp
qed

lemma extends_find_none:
  assumes "extends R ts ts'" "find (\<lambda>t. tbl_id t = m) ts = None"
  shows "find (\<lambda>t. tbl_id t = m) ts' = None"
  using extends_findIndex[OF assms(1), of m] assms(2)
  by (simp add: find_findIndex split: option.splits)

text \<open>
  Appended columns are never primary keys, so the placement of a relationship is the
  same before, during and after the pass; declared column ids that resolve keep
  resolving.
\<close>

lemma extends_placementOf:
  assumes "extends R ts ts'"
  shows "placementOf rel ts' = placementOf rel ts"
proof (cases "find (\<lambda>t. tbl_id t = sourceTableId rel) ts")
  case None
  with extends_find_none[OF assms None] show ?thesis by (simp add: placementOf_def)
next
  case s: (Some s)
  from extends_find[OF assms s] obtain s' where
    s': "find (\<lambda>t. tbl_id t = sourceTableId rel) ts' = Some s'" "grows R s s'" by blast
  show ?thesis
  proof (cases "find (\<lambda>t. tbl_id t = targetTableId rel) ts")
    case None
    with extends_find_none[OF assms None] s s' show ?thesis by (simp add: placementOf_def)
  next
    case t: (Some t)
    from extends_find[OF assms t] obtain t' where
      t': "find (\<lambda>t. tbl_id t = targetTableId rel) ts' = Some t'" "grows R t t'" by blast
    show ?thesis
      by (simp add: placementOf_def s s' t t' grows_find_pk[OF s'(2)] grows_find_pk[OF t'(2)]
            cong: option.case_cong)
  qed
qed

lemma extends_declared:
  assumes "extends R ts ts'" "declaredColumnsResolve rel ts"
  shows "declaredColumnsResolve rel ts'"
proof -
  from assms(2) obtain s t where
    s: "find (\<lambda>t. tbl_id t = sourceTableId rel) ts = Some s" and
    t: "find (\<lambda>t. tbl_id t = targetTableId rel) ts = Some t" and
    c: "find (\<lambda>c. col_id c = sourceColumnId rel) (columns s) \<noteq> None"
       "find (\<lambda>c. col_id c = targetColumnId rel) (columns t) \<noteq> None"
    by (auto simp: declaredColumnsResolve_def split: option.splits)
  from extends_find[OF assms(1) s] obtain s' where
    s': "find (\<lambda>t. tbl_id t = sourceTableId rel) ts' = Some s'" "grows R s s'" by blast
  from extends_find[OF assms(1) t] obtain t' where
    t': "find (\<lambda>t. tbl_id t = targetTableId rel) ts' = Some t'" "grows R t t'" by blast
  from grows_find_col[OF s'(2) c(1)] grows_find_col[OF t'(2) c(2)] s'(1) t'(1)
  show ?thesis by (simp add: declaredColumnsResolve_def)
qed

lemma extends_appendColumn:
  assumes "i < length ts" "\<not> primaryKey c" "R (tbl_id (ts ! i)) c"
  shows "extends R ts (appendColumn i c ts)"
proof -
  have "grows R (ts ! i) ((ts ! i)\<lparr>columns := columns (ts ! i) @ [c]\<rparr>)"
    unfolding grows_def by (rule exI[of _ "[c]"]) (use assms in simp)
  then have "grows R (ts ! j) (ts[i := (ts ! i)\<lparr>columns := columns (ts ! i) @ [c]\<rparr>] ! j)"
    if "j < length ts" for j
    using that by (cases "j = i") (simp_all add: grows_refl)
  then show ?thesis
    unfolding extends_def appendColumn_def by (simp add: list_all2_conv_all_nth)
qed

lemma fkStep_extends:
  assumes "rel \<in> set rels"
  shows "extends (fkColumnOf rels ts) ts (fkStep rel ts)"
proof (cases "fkStep rel ts = ts")
  case True
  then show ?thesis by (simp add: extends_refl)
next
  case False
  then obtain m pk i where
    p: "placementOf rel ts = Some (m, pk)" and
    i: "findIndex (\<lambda>t. tbl_id t = m) ts = Some i" and
    r: "fkStep rel ts = appendColumn i (fkColumn rel m (col_name pk) pk) ts"
    by (auto simp: fkStep_eq split: if_splits option.splits)
  from findIndex_SomeD[OF i] have il: "i < length ts" and im: "tbl_id (ts ! i) = m" by simp_all
  have "fkColumnOf rels ts (tbl_id (ts ! i)) (fkColumn rel m (col_name pk) pk)"
    unfolding fkColumnOf_def using assms p im by blast
  from extends_appendColumn[of i ts "fkColumn rel m (col_name pk) pk" "fkColumnOf rels ts",
      OF il fkColumn_not_primary this] r
  show ?thesis by simp
qed

lemma fkColumnOf_extends:
  "extends R ts ts' \<Longrightarrow> fkColumnOf rels ts' = fkColumnOf rels ts"
  by (simp add: fkColumnOf_def extends_placementOf fun_eq_iff)

lemma fkLoop_extends_aux:
  "set rs \<subseteq> set rels \<Longrightarrow> extends (fkColumnOf rels ts0) ts0 ts \<Longrightarrow>
   extends (fkColumnOf rels ts0) ts0 (fkLoop rs ts)"
proof (induction rs arbitrary: ts)
  case Nil
  then show ?case by (simp add: fkLoop_Nil)
next
  case (Cons r rs)
  from Cons.prems(1) have r: "r \<in> set rels" and rs: "set rs \<subseteq> set rels" by simp_all
  from fkStep_extends[OF r, of ts] fkColumnOf_extends[OF Cons.prems(2), of rels]
  have "extends (fkColumnOf rels ts0) ts (fkStep r ts)" by simp
  with Cons.prems(2) have "extends (fkColumnOf rels ts0) ts0 (fkStep r ts)"
    by (rule extends_trans)
  from Cons.IH[OF rs this] show ?case by (simp add: fkLoop_Cons)
qed

lemma fkLoop_extends: "extends (fkColumnOf rels ts) ts (fkLoop rels ts)"
  by (rule fkLoop_extends_aux) (simp_all add: extends_refl)

lemma fkLoop_extends_any: "extends (\<lambda>_ _. True) ts (fkLoop rels ts)"
  by (rule extends_mono[OF fkLoop_extends]) simp

lemma fkStep_extends_any: "extends (\<lambda>_ _. True) ts (fkStep rel ts)"
  using fkLoop_extends_any[of ts "[rel]"] by (simp add: fkLoop_Cons fkLoop_Nil)

subsection \<open>The key's name is on the destination after the pass\<close>

lemma fkNamePresent_extends:
  assumes "extends R ts ts'" "fkNamePresent m pk ts"
  shows "fkNamePresent m pk ts'"
proof -
  from assms(2) obtain t where t: "find (\<lambda>t. tbl_id t = m) ts = Some t"
    and n: "list_ex (\<lambda>c. col_name c = col_name pk) (columns t)"
    by (auto simp: fkNamePresent_def split: option.splits)
  from extends_find[OF assms(1) t] obtain t' where
    "find (\<lambda>t. tbl_id t = m) ts' = Some t'" "grows R t t'" by blast
  with grows_name[OF this(2) n] show ?thesis by (simp add: fkNamePresent_def)
qed

lemma fkStep_name_present:
  assumes "declaredColumnsResolve rel ts" "placementOf rel ts = Some (m, pk)"
  shows "fkNamePresent m pk (fkStep rel ts)"
proof -
  from placementOf_table[OF assms(2)] obtain i where i: "findIndex (\<lambda>t. tbl_id t = m) ts = Some i" ..
  from findIndex_SomeD[OF i] have il: "i < length ts" by simp
  show ?thesis
  proof (cases "list_ex (\<lambda>c. col_name c = col_name pk) (columns (ts ! i))")
    case True
    with assms i show ?thesis by (simp add: fkStep_eq fkNamePresent_def find_findIndex)
  next
    case False
    let ?c = "fkColumn rel m (col_name pk) pk"
    from False assms i have r: "fkStep rel ts = appendColumn i ?c ts" by (simp add: fkStep_eq)
    have "extends (\<lambda>_ _. True) ts (appendColumn i ?c ts)"
      by (rule extends_appendColumn[OF il fkColumn_not_primary]) simp
    from extends_findIndex[OF this, of m] i
    have "findIndex (\<lambda>t. tbl_id t = m) (appendColumn i ?c ts) = Some i" by simp
    moreover have "list_ex (\<lambda>c. col_name c = col_name pk) (columns (appendColumn i ?c ts ! i))"
      using il by (simp add: appendColumn_def fkColumn_def)
    ultimately show ?thesis by (simp add: r fkNamePresent_def find_findIndex)
  qed
qed

lemma fkLoop_name_present:
  "rel \<in> set rels \<Longrightarrow> declaredColumnsResolve rel ts \<Longrightarrow> placementOf rel ts = Some (m, pk) \<Longrightarrow>
   fkNamePresent m pk (fkLoop rels ts)"
proof (induction rels arbitrary: ts)
  case Nil
  then show ?case by simp
next
  case (Cons r rs)
  show ?case
  proof (cases "rel = r")
    case True
    with Cons.prems have "fkNamePresent m pk (fkStep r ts)" by (simp add: fkStep_name_present)
    from fkNamePresent_extends[OF fkLoop_extends_any this] show ?thesis by (simp add: fkLoop_Cons)
  next
    case False
    with Cons.prems(1) have in_rs: "rel \<in> set rs" by simp
    have d: "declaredColumnsResolve rel (fkStep r ts)"
      by (rule extends_declared[OF fkStep_extends_any Cons.prems(2)])
    have p: "placementOf rel (fkStep r ts) = Some (m, pk)"
      using extends_placementOf[OF fkStep_extends_any, of rel r ts] Cons.prems(3) by simp
    from Cons.IH[OF in_rs d p] show ?thesis by (simp add: fkLoop_Cons)
  qed
qed

lemma fkLoop_idempotent:
  assumes "\<And>rel. rel \<in> set rels \<Longrightarrow> declaredColumnsResolve rel (fkLoop rels ts) \<Longrightarrow>
                 declaredColumnsResolve rel ts"
  shows "fkLoop rels (fkLoop rels ts) = fkLoop rels ts"
proof (rule fkLoop_fixed)
  fix rel assume rel: "rel \<in> set rels"
  let ?T = "fkLoop rels ts"
  show "fkStep rel ?T = ?T"
  proof (cases "declaredColumnsResolve rel ?T")
    case False
    then show ?thesis by (simp add: fkStep_fixed)
  next
    case True
    with assms[OF rel] have d: "declaredColumnsResolve rel ts" by simp
    have p: "placementOf rel ?T = placementOf rel ts"
      by (rule extends_placementOf[OF fkLoop_extends_any])
    show ?thesis
    proof (cases "placementOf rel ts")
      case None
      with p show ?thesis by (simp add: fkStep_fixed)
    next
      case (Some a)
      then obtain m pk where mp: "placementOf rel ts = Some (m, pk)" by (cases a) simp
      from fkLoop_name_present[OF rel d mp] p mp show ?thesis
        by (intro fkStep_fixed) simp
    qed
  qed
qed

subsection \<open>Counting columns\<close>

lemma sum_columns_appendColumn:
  assumes "i < length ts"
  shows "(\<Sum>t\<leftarrow>appendColumn i c ts. length (columns t)) = Suc (\<Sum>t\<leftarrow>ts. length (columns t))"
proof -
  have "map (\<lambda>t. length (columns t)) (appendColumn i c ts) =
        (map (\<lambda>t. length (columns t)) ts)[i := Suc (length (columns (ts ! i)))]"
    by (simp add: appendColumn_def map_update)
  moreover have "map (\<lambda>t. length (columns t)) ts ! i = length (columns (ts ! i))"
    using assms by simp
  ultimately show ?thesis
    using assms sum_list_update[of i "map (\<lambda>t. length (columns t)) ts" "Suc (length (columns (ts ! i)))"]
      member_le_sum_list[of "length (columns (ts ! i))" "map (\<lambda>t. length (columns t)) ts"]
    by auto
qed

lemma sum_columns_fkStep:
  "(\<Sum>t\<leftarrow>fkStep rel ts. length (columns t)) \<le> Suc (\<Sum>t\<leftarrow>ts. length (columns t))"
proof (cases "fkStep rel ts = ts")
  case True then show ?thesis by simp
next
  case False
  then obtain m pk i where
    i: "findIndex (\<lambda>t. tbl_id t = m) ts = Some i" and
    r: "fkStep rel ts = appendColumn i (fkColumn rel m (col_name pk) pk) ts"
    by (auto simp: fkStep_eq split: if_splits option.splits)
  from findIndex_SomeD[OF i] have "i < length ts" by simp
  from sum_columns_appendColumn[OF this] r show ?thesis by simp
qed

lemma sum_columns_fkLoop:
  "(\<Sum>t\<leftarrow>fkLoop rels ts. length (columns t)) \<le> (\<Sum>t\<leftarrow>ts. length (columns t)) + length rels"
proof (induction rels arbitrary: ts)
  case Nil then show ?case by (simp add: fkLoop_Nil)
next
  case (Cons r rs)
  from Cons.IH[of "fkStep r ts"] sum_columns_fkStep[of r ts] show ?case
    by (simp add: fkLoop_Cons)
qed

subsection \<open>Placement (claim C1)\<close>

lemmas eval_defs = addForeignKeyFields_def fkLoop_def fkStep_def fkDecision_def fkColumn_def

text \<open>
  Claim C1 as stated fails: in \<open>textKeySchema\<close> the 1:N relationship resolves and its
  placement is the target table Invoice with the customer's key (typed TEXT), but
  Invoice already has a column named \<open>id\<close>, so the pass adds nothing and Invoice is left
  with its single INTEGER column: no column copies the type of the source's key.
\<close>

theorem fk_resolution_placement_counterexample:
  "declaredColumnsResolve (hd (relationships textKeySchema)) (tables textKeySchema) \<and>
   placementOf (hd (relationships textKeySchema)) (tables textKeySchema) =
     Some (''t2'', pkColumn ''c1'' ''id'' TEXT) \<and>
   tbl_id (tables (addForeignKeyFields textKeySchema) ! 1) = ''t2'' \<and>
   map col_type (columns (tables (addForeignKeyFields textKeySchema) ! 1)) = [INTEGER]"
  by (simp add: textKeySchema_def scenario_defs eval_defs declaredColumnsResolve_def placementOf_def)

text \<open>
  Claim C1, amended. The pass handles the relationships in list order, each on the
  tables as extended so far. A relationship whose declared column ids resolve there
  and to which the placement rule gives a destination table and a primary key to copy
  appends its foreign-key column to the destination table (the first table with that
  id), unless that table already has a column with the key's name; every other
  relationship (declared column ids that do not resolve, N:M, 1:1 with no optional
  side, a missing table or primary key) changes nothing. Consequently, with \<open>S'\<close> the
  result of the pass on \<open>S\<close>:
  \<^item> for every relationship of \<open>S\<close> whose declared column ids resolve and that has a
    placement, the destination table in \<open>S'\<close> has a column with the copied key's name;
  \<^item> \<open>S'\<close> has the tables of \<open>S\<close>, each with zero or more columns appended, and every
    appended column is the foreign-key column of a relationship of \<open>S\<close> that the rule
    places on this table: its id is \<open>fk-{relationship id}-{table id}\<close>, its name and
    type are those of the copied primary key, \<open>primaryKey\<close> and \<open>autoIncrement\<close> are
    false, \<open>nullable\<close> is \<open>sourceOptional \<or> targetOptional\<close>, and \<open>unique\<close> holds exactly
    for cardinality 1:1.
\<close>

theorem fk_resolution_placement:
  "tables (addForeignKeyFields S) = foldl (\<lambda>ts rel. fkStep rel ts) (tables S) (relationships S)
   \<and> (\<forall>rel ts. fkStep rel ts =
        (if declaredColumnsResolve rel ts then
           (case placementOf rel ts of None \<Rightarrow> ts
            | Some (m, pk) \<Rightarrow>
                (case findIndex (\<lambda>t. tbl_id t = m) ts of None \<Rightarrow> ts
                 | Some i \<Rightarrow>
                     if list_ex (\<lambda>c. col_name c = col_name pk) (columns (ts ! i)) then ts
                     else ts[i := (ts ! i)\<lparr>columns := columns (ts ! i) @
                            [fkColumn rel m (col_name pk) pk]\<rparr>]))
         else ts))
   \<and> (\<forall>rel\<in>set (relationships S). \<forall>m pk.
      declaredColumnsResolve rel (tables S) \<longrightarrow> placementOf rel (tables S) = Some (m, pk) \<longrightarrow>
      fkNamePresent m pk (tables (addForeignKeyFields S)))
   \<and> length (tables (addForeignKeyFields S)) = length (tables S)
   \<and> (\<forall>i<length (tables S). \<exists>extra.
        tables (addForeignKeyFields S) ! i =
          (tables S ! i)\<lparr>columns := columns (tables S ! i) @ extra\<rparr> \<and>
        (\<forall>c\<in>set extra. \<exists>rel\<in>set (relationships S). \<exists>pk.
           placementOf rel (tables S) = Some (tbl_id (tables S ! i), pk) \<and>
           col_id c = ''fk-'' @ rel_id rel @ ''-'' @ tbl_id (tables S ! i) \<and>
           col_name c = col_name pk \<and> col_type c = col_type pk \<and> \<not> primaryKey c \<and>
           nullable c = (sourceOptional rel \<or> targetOptional rel) \<and>
           unique c = (cardinality rel = Card_1_1) \<and> \<not> autoIncrement c))"
proof (intro conjI ballI allI impI)
  show "tables (addForeignKeyFields S) =
        foldl (\<lambda>ts rel. fkStep rel ts) (tables S) (relationships S)"
    by (simp add: addForeignKeyFields_tables fkLoop_def)
next
  fix rel ts
  show "fkStep rel ts =
        (if declaredColumnsResolve rel ts then
           (case placementOf rel ts of None \<Rightarrow> ts
            | Some (m, pk) \<Rightarrow>
                (case findIndex (\<lambda>t. tbl_id t = m) ts of None \<Rightarrow> ts
                 | Some i \<Rightarrow>
                     if list_ex (\<lambda>c. col_name c = col_name pk) (columns (ts ! i)) then ts
                     else ts[i := (ts ! i)\<lparr>columns := columns (ts ! i) @
                            [fkColumn rel m (col_name pk) pk]\<rparr>]))
         else ts)"
    unfolding fkStep_eq appendColumn_def by (rule refl)
next
  fix rel m pk
  assume "rel \<in> set (relationships S)" "declaredColumnsResolve rel (tables S)"
    "placementOf rel (tables S) = Some (m, pk)"
  then show "fkNamePresent m pk (tables (addForeignKeyFields S))"
    by (simp add: addForeignKeyFields_tables fkLoop_name_present)
next
  show "length (tables (addForeignKeyFields S)) = length (tables S)"
    using extends_length[OF fkLoop_extends_any] by (simp add: addForeignKeyFields_tables)
next
  fix i assume i: "i < length (tables S)"
  from extends_nth[OF fkLoop_extends i, of "relationships S"] obtain extra where
    e: "tables (addForeignKeyFields S) ! i = (tables S ! i)\<lparr>columns := columns (tables S ! i) @ extra\<rparr>"
      "\<forall>c\<in>set extra. fkColumnOf (relationships S) (tables S) (tbl_id (tables S ! i)) c"
    by (auto simp: grows_def addForeignKeyFields_tables)
  show "\<exists>extra.
        tables (addForeignKeyFields S) ! i =
          (tables S ! i)\<lparr>columns := columns (tables S ! i) @ extra\<rparr> \<and>
        (\<forall>c\<in>set extra. \<exists>rel\<in>set (relationships S). \<exists>pk.
           placementOf rel (tables S) = Some (tbl_id (tables S ! i), pk) \<and>
           col_id c = ''fk-'' @ rel_id rel @ ''-'' @ tbl_id (tables S ! i) \<and>
           col_name c = col_name pk \<and> col_type c = col_type pk \<and> \<not> primaryKey c \<and>
           nullable c = (sourceOptional rel \<or> targetOptional rel) \<and>
           unique c = (cardinality rel = Card_1_1) \<and> \<not> autoIncrement c)"
  proof (intro exI[of _ extra] conjI ballI)
    fix c assume "c \<in> set extra"
    with e(2) obtain rel pk where "rel \<in> set (relationships S)"
      "placementOf rel (tables S) = Some (tbl_id (tables S ! i), pk)"
      "c = fkColumn rel (tbl_id (tables S ! i)) (col_name pk) pk"
      unfolding fkColumnOf_def by blast
    then show "\<exists>rel\<in>set (relationships S). \<exists>pk.
           placementOf rel (tables S) = Some (tbl_id (tables S ! i), pk) \<and>
           col_id c = ''fk-'' @ rel_id rel @ ''-'' @ tbl_id (tables S ! i) \<and>
           col_name c = col_name pk \<and> col_type c = col_type pk \<and> \<not> primaryKey c \<and>
           nullable c = (sourceOptional rel \<or> targetOptional rel) \<and>
           unique c = (cardinality rel = Card_1_1) \<and> \<not> autoIncrement c"
      by (intro bexI[of _ rel] exI[of _ pk]) (simp_all add: fkColumn_def)
  qed (rule e(1))
qed

text \<open>The theorem at \<open>ordersSchema\<close>: Orders receives the column \<open>customer_id\<close>.\<close>

theorem fk_resolution_placement_witness:
  "declaredColumnsResolve (hd (relationships ordersSchema)) (tables ordersSchema) \<and>
   placementOf (hd (relationships ordersSchema)) (tables ordersSchema) =
     Some (''t2'', pkColumn ''c1'' ''customer_id'' LONG) \<and>
   fkNamePresent ''t2'' (pkColumn ''c1'' ''customer_id'' LONG) (tables (addForeignKeyFields ordersSchema)) \<and>
   map col_name (columns (tables (addForeignKeyFields ordersSchema) ! 1)) = [''order_id'', ''customer_id'']"
proof -
  have r: "hd (relationships ordersSchema) \<in> set (relationships ordersSchema)"
    by (simp add: ordersSchema_def)
  have d: "declaredColumnsResolve (hd (relationships ordersSchema)) (tables ordersSchema)"
    by (simp add: ordersSchema_def scenario_defs declaredColumnsResolve_def)
  have p: "placementOf (hd (relationships ordersSchema)) (tables ordersSchema) =
     Some (''t2'', pkColumn ''c1'' ''customer_id'' LONG)"
    by (simp add: ordersSchema_def scenario_defs placementOf_def)
  from fk_resolution_placement[of ordersSchema] r d p
  have "fkNamePresent ''t2'' (pkColumn ''c1'' ''customer_id'' LONG) (tables (addForeignKeyFields ordersSchema))"
    by blast
  moreover have "map col_name (columns (tables (addForeignKeyFields ordersSchema) ! 1)) = [''order_id'', ''customer_id'']"
    by (simp add: ordersSchema_def scenario_defs eval_defs)
  ultimately show ?thesis using d p by simp
qed

subsection \<open>Idempotence (claim C5)\<close>

text \<open>
  Claim C5 as stated fails on \<open>lateIdSchema\<close>. In the first pass the first relationship
  is skipped, its declared source column \<open>fk-r2-a\<close> being on no table, and the second
  adds a column with exactly that id to \<open>A\<close>. In a second pass the first relationship
  resolves and adds a column to \<open>B\<close>: \<open>B\<close> has one column after one pass and two after
  two.
\<close>

theorem fk_resolution_idempotent_counterexample:
  "length (columns (tables (addForeignKeyFields lateIdSchema) ! 1)) = 1 \<and>
   length (columns (tables (addForeignKeyFields (addForeignKeyFields lateIdSchema)) ! 1)) = 2"
  by (simp add: lateIdSchema_def scenario_defs eval_defs)

text \<open>
  Claim C5, amended. If every relationship whose declared column ids resolve in the
  resolved schema has them resolve in the schema itself (no dangling column id is the
  id of a column the pass adds), then resolving the resolved schema changes nothing:
  the schema, and so every table's column count, stays the same. And in any table
  list, a relationship whose destination table already has a column with the name of
  the key to copy adds no column.
\<close>

theorem fk_resolution_idempotent:
  assumes "\<forall>rel\<in>set (relationships S).
             declaredColumnsResolve rel (tables (addForeignKeyFields S)) \<longrightarrow>
             declaredColumnsResolve rel (tables S)"
  shows "addForeignKeyFields (addForeignKeyFields S) = addForeignKeyFields S \<and>
         map (\<lambda>t. length (columns t)) (tables (addForeignKeyFields (addForeignKeyFields S))) =
         map (\<lambda>t. length (columns t)) (tables (addForeignKeyFields S)) \<and>
         (\<forall>rel ts m pk. placementOf rel ts = Some (m, pk) \<longrightarrow> fkNamePresent m pk ts \<longrightarrow>
            fkStep rel ts = ts)"
proof -
  have "fkLoop (relationships S) (fkLoop (relationships S) (tables S)) =
        fkLoop (relationships S) (tables S)"
    by (rule fkLoop_idempotent) (use assms in \<open>simp add: addForeignKeyFields_tables\<close>)
  then have "addForeignKeyFields (addForeignKeyFields S) = addForeignKeyFields S"
    by (simp add: addForeignKeyFields_def)
  moreover have "fkStep rel ts = ts"
    if "placementOf rel ts = Some (m, pk)" "fkNamePresent m pk ts" for rel ts m pk
    using that by (intro fkStep_fixed) simp
  ultimately show ?thesis by simp
qed

text \<open>
  The theorem at \<open>ordersSchema\<close>, whose declared column ids all resolve: a second pass
  changes nothing. And its last part at \<open>textKeySchema\<close>, where Invoice already has a
  column named like the customer's key: the step adds nothing.
\<close>

theorem fk_resolution_idempotent_witness:
  "addForeignKeyFields (addForeignKeyFields ordersSchema) = addForeignKeyFields ordersSchema \<and>
   map (\<lambda>t. length (columns t)) (tables (addForeignKeyFields ordersSchema)) = [1, 2] \<and>
   placementOf (hd (relationships textKeySchema)) (tables textKeySchema) =
     Some (''t2'', pkColumn ''c1'' ''id'' TEXT) \<and>
   fkNamePresent ''t2'' (pkColumn ''c1'' ''id'' TEXT) (tables textKeySchema) \<and>
   fkStep (hd (relationships textKeySchema)) (tables textKeySchema) = tables textKeySchema"
proof -
  have "\<forall>rel\<in>set (relationships ordersSchema).
          declaredColumnsResolve rel (tables (addForeignKeyFields ordersSchema)) \<longrightarrow>
          declaredColumnsResolve rel (tables ordersSchema)"
    by (simp add: ordersSchema_def scenario_defs declaredColumnsResolve_def)
  note th = fk_resolution_idempotent[OF this]
  from th
  have 1: "addForeignKeyFields (addForeignKeyFields ordersSchema) = addForeignKeyFields ordersSchema"
    by simp
  have 2: "map (\<lambda>t. length (columns t)) (tables (addForeignKeyFields ordersSchema)) = [1, 2]"
    by (simp add: ordersSchema_def scenario_defs eval_defs)
  have p: "placementOf (hd (relationships textKeySchema)) (tables textKeySchema) =
     Some (''t2'', pkColumn ''c1'' ''id'' TEXT)"
    by (simp add: textKeySchema_def scenario_defs placementOf_def)
  have n: "fkNamePresent ''t2'' (pkColumn ''c1'' ''id'' TEXT) (tables textKeySchema)"
    by (simp add: textKeySchema_def scenario_defs fkNamePresent_def)
  from th p n
  have 3: "fkStep (hd (relationships textKeySchema)) (tables textKeySchema) = tables textKeySchema"
    by blast
  from 1 2 p n 3 show ?thesis by simp
qed

subsection \<open>1:1 with both sides optional (claim C10)\<close>

text \<open>
  Claim C10 as stated fails at \<open>passportHandleSchema\<close>: the relationship is 1:1 with
  both sides optional, both tables exist and have a primary key, but its declared
  column ids are on no table. The field pass skips it and places no column, neither on
  Passport nor anywhere else, while the constraint pass emits its ALTER TABLE on
  Passport.
\<close>

theorem one_to_one_both_optional_counterexample:
  "cardinality (hd (relationships passportHandleSchema)) = Card_1_1 \<and>
   sourceOptional (hd (relationships passportHandleSchema)) \<and>
   targetOptional (hd (relationships passportHandleSchema)) \<and>
   tables (addForeignKeyFields passportHandleSchema) = tables passportHandleSchema \<and>
   map col_name (columns (tables (addForeignKeyFields passportHandleSchema) ! 1)) = [''passport_id''] \<and>
   alterStatements passportHandleSchema =
     [''ALTER TABLE [Passport]\<newline>    ADD CONSTRAINT [FK_Passport_Passport] FOREIGN KEY ([person_id])\<newline>    REFERENCES [Passport]([person_id]);'']"
  by (simp add: passportHandleSchema_def scenario_defs eval_defs alterStatements_def
      resolvedTables_def nonMN_def generateForeignKeyConstraint_def)

text \<open>
  Claim C10, amended. For a 1:1 relationship with \<open>sourceOptional\<close> and
  \<open>targetOptional\<close> both true, whose endpoint tables exist, each with a primary key, and
  whose declared column ids resolve, the target-optional branch takes precedence in
  both passes. The field pass appends to the target table the foreign-key column
  copied from the source table's primary key, unless the target table already has a
  column of that name (then it adds nothing); the constraint pass emits an ALTER TABLE
  on the target table whose foreign-key column is named after the source table's
  primary key. What the passes do when the declared column ids do not resolve is left
  open.
\<close>

theorem one_to_one_both_optional:
  assumes "cardinality rel = Card_1_1" "sourceOptional rel" "targetOptional rel"
    and "find (\<lambda>t. tbl_id t = sourceTableId rel) ts = Some sourceTable"
    and "find (\<lambda>t. tbl_id t = targetTableId rel) ts = Some targetTable"
    and "find (\<lambda>c. primaryKey c) (columns sourceTable) = Some sourcePK"
    and "find (\<lambda>c. primaryKey c) (columns targetTable) = Some targetPK"
    and "find (\<lambda>c. col_id c = sourceColumnId rel) (columns sourceTable) = Some sourceColumn"
    and "find (\<lambda>c. col_id c = targetColumnId rel) (columns targetTable) = Some targetColumn"
  shows "(\<exists>i. findIndex (\<lambda>t. tbl_id t = targetTableId rel) ts = Some i \<and> ts ! i = targetTable \<and>
           fkStep rel ts =
             (if list_ex (\<lambda>c. col_name c = col_name sourcePK) (columns targetTable) then ts
              else ts[i := targetTable\<lparr>columns := columns targetTable @
                      [fkColumn rel (targetTableId rel) (col_name sourcePK) sourcePK]\<rparr>]))
       \<and> (\<exists>fkName rest. generateForeignKeyConstraint rel ts =
             ''ALTER TABLE ['' @ tbl_name targetTable @ '']\<newline>''
             @ ''    ADD CONSTRAINT ['' @ fkName @ ''] FOREIGN KEY (['' @ col_name sourcePK @ ''])\<newline>''
             @ rest)"
proof -
  from assms(5) obtain i where i: "findIndex (\<lambda>t. tbl_id t = targetTableId rel) ts = Some i"
    "ts ! i = targetTable" by (auto simp: find_findIndex split: option.splits)
  have p: "placementOf rel ts = Some (targetTableId rel, sourcePK)"
    using assms by (simp add: placementOf_def)
  have d: "declaredColumnsResolve rel ts"
    using assms by (simp add: declaredColumnsResolve_def)
  have "fkStep rel ts =
             (if list_ex (\<lambda>c. col_name c = col_name sourcePK) (columns targetTable) then ts
              else ts[i := targetTable\<lparr>columns := columns targetTable @
                      [fkColumn rel (targetTableId rel) (col_name sourcePK) sourcePK]\<rparr>])"
    unfolding fkStep_eq p using i d by (simp add: appendColumn_def)
  with i have 1: "\<exists>i. findIndex (\<lambda>t. tbl_id t = targetTableId rel) ts = Some i \<and> ts ! i = targetTable \<and>
           fkStep rel ts =
             (if list_ex (\<lambda>c. col_name c = col_name sourcePK) (columns targetTable) then ts
              else ts[i := targetTable\<lparr>columns := columns targetTable @
                      [fkColumn rel (targetTableId rel) (col_name sourcePK) sourcePK]\<rparr>])" by blast
  have "generateForeignKeyConstraint rel ts =
             ''ALTER TABLE ['' @ tbl_name targetTable @ '']\<newline>''
             @ ''    ADD CONSTRAINT ['' @ (''FK_'' @ tbl_name targetTable @ ''_'' @ tbl_name targetTable)
             @ ''] FOREIGN KEY (['' @ col_name sourcePK @ ''])\<newline>''
             @ (''    REFERENCES ['' @ tbl_name targetTable @ '']([''  @ col_name sourcePK @ ''])''
                @ (if onDelete rel \<noteq> NO_ACTION then ''\<newline>    ON DELETE '' @ refActionText (onDelete rel) else [])
                @ (if onUpdate rel \<noteq> NO_ACTION then ''\<newline>    ON UPDATE '' @ refActionText (onUpdate rel) else [])
                @ '';'')"
    using assms by (simp add: generateForeignKeyConstraint_def Let_def)
  then have 2: "\<exists>fkName rest. generateForeignKeyConstraint rel ts =
             ''ALTER TABLE ['' @ tbl_name targetTable @ '']\<newline>''
             @ ''    ADD CONSTRAINT ['' @ fkName @ ''] FOREIGN KEY (['' @ col_name sourcePK @ ''])\<newline>''
             @ rest" by blast
  from 1 2 show ?thesis by blast
qed

text \<open>
  The theorem at \<open>passportSchema\<close>, whose declared column ids resolve: Passport
  receives \<open>person_id\<close> and is altered.
\<close>

theorem one_to_one_both_optional_witness:
  "cardinality (hd (relationships passportSchema)) = Card_1_1 \<and>
   sourceOptional (hd (relationships passportSchema)) \<and>
   targetOptional (hd (relationships passportSchema)) \<and>
   declaredColumnsResolve (hd (relationships passportSchema)) (tables passportSchema) \<and>
   map col_name (columns (fkStep (hd (relationships passportSchema)) (tables passportSchema) ! 1)) =
     [''passport_id'', ''person_id''] \<and>
   (\<exists>fkName rest.
      generateForeignKeyConstraint (hd (relationships passportSchema)) (tables passportSchema) =
        ''ALTER TABLE [Passport]\<newline>''
        @ ''    ADD CONSTRAINT ['' @ fkName @ ''] FOREIGN KEY ([person_id])\<newline>'' @ rest)"
proof -
  let ?r = "hd (relationships passportSchema)"
  let ?ts = "tables passportSchema"
  let ?person = "mkTable ''t1'' ''Person'' [pkColumn ''c1'' ''person_id'' INTEGER]"
  let ?passport = "mkTable ''t2'' ''Passport'' [pkColumn ''c2'' ''passport_id'' INTEGER]"
  have a: "cardinality ?r = Card_1_1" "sourceOptional ?r" "targetOptional ?r"
    by (simp_all add: passportSchema_def scenario_defs)
  have b: "find (\<lambda>t. tbl_id t = sourceTableId ?r) ?ts = Some ?person"
    "find (\<lambda>t. tbl_id t = targetTableId ?r) ?ts = Some ?passport"
    by (simp_all add: passportSchema_def scenario_defs)
  have c: "find (\<lambda>c. primaryKey c) (columns ?person) = Some (pkColumn ''c1'' ''person_id'' INTEGER)"
    "find (\<lambda>c. primaryKey c) (columns ?passport) = Some (pkColumn ''c2'' ''passport_id'' INTEGER)"
    by (simp_all add: scenario_defs)
  have d: "find (\<lambda>c. col_id c = sourceColumnId ?r) (columns ?person) =
             Some (pkColumn ''c1'' ''person_id'' INTEGER)"
    "find (\<lambda>c. col_id c = targetColumnId ?r) (columns ?passport) =
             Some (pkColumn ''c2'' ''passport_id'' INTEGER)"
    by (simp_all add: passportSchema_def scenario_defs)
  have e: "declaredColumnsResolve ?r ?ts"
    by (simp add: passportSchema_def scenario_defs declaredColumnsResolve_def)
  note th = one_to_one_both_optional[OF a b c d]
  from th obtain i where i: "findIndex (\<lambda>t. tbl_id t = targetTableId ?r) ?ts = Some i"
    and step: "fkStep ?r ?ts =
      (if list_ex (\<lambda>c. col_name c = col_name (pkColumn ''c1'' ''person_id'' INTEGER)) (columns ?passport)
       then ?ts
       else ?ts[i := ?passport\<lparr>columns := columns ?passport @
               [fkColumn ?r (targetTableId ?r) (col_name (pkColumn ''c1'' ''person_id'' INTEGER))
                  (pkColumn ''c1'' ''person_id'' INTEGER)]\<rparr>])"
    by blast
  from i have "i = 1" by (simp add: passportSchema_def scenario_defs)
  with step have 1: "map col_name (columns (fkStep ?r ?ts ! 1)) = [''passport_id'', ''person_id'']"
    by (simp add: passportSchema_def scenario_defs fkColumn_def)
  from th have 2: "\<exists>fkName rest. generateForeignKeyConstraint ?r ?ts =
        ''ALTER TABLE [Passport]\<newline>''
        @ ''    ADD CONSTRAINT ['' @ fkName @ ''] FOREIGN KEY ([person_id])\<newline>'' @ rest"
    by (simp add: scenario_defs)
  from a e 1 2 show ?thesis by simp
qed

section \<open>Properties of the generated text\<close>

text \<open>
  The text is the header, two line breaks, and what the three loops append: a junction
  statement and a line break per N:M relationship, a CREATE TABLE statement and two
  line breaks per table of the resolved schema, an ALTER TABLE statement and a line
  break per other relationship for which the constraint pass returns a statement.
\<close>

lemma generate_sections:
  "generate dialect now S =
     generateHeader dialect now @ ''\<newline>\<newline>'' @ junctionSection S @ createSection S @ alterSection S"
  unfolding generate_def Let_def junctionSection_def createSection_def alterSection_def
    alterStatements_def resolvedTables_def nonMN_def
  by (simp only: foldl_append foldl_append_nonempty[unfolded Let_def] append_assoc)


lemma alter_none_N_M:
  "cardinality rel = Card_N_M \<Longrightarrow> generateForeignKeyConstraint rel ts = []"
  by (simp add: generateForeignKeyConstraint_def split: option.splits)

text \<open>
  The constraint pass returns a statement exactly when the placement rule gives a
  placement; it does not look at the declared column ids.
\<close>

lemma alter_iff_placement:
  "(generateForeignKeyConstraint rel ts = []) = (placementOf rel ts = None)"
  by (auto simp: generateForeignKeyConstraint_def placementOf_def Let_def
      split: option.splits Cardinality.splits)

subsection \<open>Junction tables (claim C2)\<close>


text \<open>The Student/Course scenario: one junction statement, no ALTER TABLE statement.\<close>

lemma junction_student_course:
  "junctionSection studentCourseSchema =
     ''CREATE TABLE [Student_Course] (\<newline>''
     @ ''    [id] INTEGER NOT NULL,\<newline>''
     @ ''    [id] INTEGER NOT NULL,\<newline>''
     @ ''    CONSTRAINT [PK_Student_Course] PRIMARY KEY ([id], [id]),\<newline>''
     @ ''    CONSTRAINT [FK_Student_Course_Student] FOREIGN KEY ([id]) REFERENCES [Student]([id]),\<newline>''
     @ ''    CONSTRAINT [FK_Student_Course_Course] FOREIGN KEY ([id]) REFERENCES [Course]([id])\<newline>''
     @ '');\<newline>\<newline>\<newline>'' \<and>
   alterStatements studentCourseSchema = []"
  by (simp add: junctionSection_def alterStatements_def nonMN_def studentCourseSchema_def
      scenario_defs generateJunctionTable_def mapDataType_def typeMap_def)

subsection \<open>The Customer/Invoice scenario (claim C3)\<close>



subsection \<open>Skipped relationships (claim C4)\<close>

text \<open>
  Claim C4 at \<open>danglingSchema\<close>. The declared source column of the N:1 relationship
  does not resolve, so the field pass skips it and Orders gets no column
  \<open>customer_id\<close>; the constraint pass still emits the ALTER TABLE statement, on the
  column that does not exist.
\<close>

theorem dangling_column_still_altered:
  "\<not> declaredColumnsResolve (hd (relationships danglingSchema)) (tables danglingSchema) \<and>
   tables (addForeignKeyFields danglingSchema) = tables danglingSchema \<and>
   alterStatements danglingSchema =
     [''ALTER TABLE [Orders]\<newline>    ADD CONSTRAINT [FK_Orders_Customer] FOREIGN KEY ([customer_id])\<newline>    REFERENCES [Customer]([customer_id]);'']"
  by (simp add: danglingSchema_def scenario_defs eval_defs declaredColumnsResolve_def alterStatements_def resolvedTables_def
      nonMN_def generateForeignKeyConstraint_def)

subsection \<open>Determinism and totality (claim C7)\<close>

text \<open>
  On a schema of the declared type the model with the exception returns, and returns
  the text of the first model.
\<close>

lemma find_rawTable:
  "find (\<lambda>t. raw_id t = i) (map rawTable ts) = map_option rawTable (find (\<lambda>t. tbl_id t = i) ts)"
  by (induction ts) (simp_all add: rawTable_def)

lemma generateJunctionTableRaw_typed:
  "generateJunctionTableRaw rel (map rawTable ts) = Inr (generateJunctionTable rel ts)"
  by (simp add: generateJunctionTableRaw_def generateJunctionTable_def find_rawTable rawTable_def
      Let_def split: option.splits)

lemma junctionLoopRaw_typed:
  "junctionLoopRaw rels (map rawTable ts) sql =
     Inr (foldl (\<lambda>sql rel. sql @ generateJunctionTable rel ts @ ''\<newline>'') sql rels)"
  by (induction rels arbitrary: sql) (simp_all add: generateJunctionTableRaw_typed)

lemma copyRawTables_typed: "copyRawTables (map rawTable ts) = Inr ts"
  by (induction ts) (simp_all add: rawTable_def)

lemma addForeignKeyFieldsRaw_typed:
  "addForeignKeyFieldsRaw (rawSchema S) = Inr (addForeignKeyFields S)"
  by (simp add: addForeignKeyFieldsRaw_def rawSchema_def copyRawTables_typed addForeignKeyFields_def)

lemma generateRaw_typed: "generateRaw dialect now (rawSchema S) = Inr (generate dialect now S)"
proof -
  have "addForeignKeyFieldsRaw \<lparr>raw_tables = map rawTable (tables S), raw_relationships = rs\<rparr> =
        Inr (addForeignKeyFields \<lparr>tables = tables S, relationships = rs\<rparr>)" for rs
    using addForeignKeyFieldsRaw_typed[of "\<lparr>tables = tables S, relationships = rs\<rparr>"]
    by (simp add: rawSchema_def)
  then show ?thesis
    by (simp add: generateRaw_def generate_def Let_def junctionLoopRaw_typed rawSchema_def)
qed

text \<open>
  The copy of the tables succeeds exactly on table lists of the declared type, and
  \<open>generate\<close> throws exactly when some table has no \<open>columns\<close>.
\<close>

lemma copyRawTables_Inr: "copyRawTables ts = Inr copies \<Longrightarrow> ts = map rawTable copies"
  by (induction ts arbitrary: copies) (auto simp: rawTable_def split: option.splits sum.splits)

lemma copyRawTables_Inl:
  "(\<exists>e. copyRawTables ts = Inl e) = (\<exists>t\<in>set ts. raw_columns t = None)"
  by (induction ts) (auto split: option.splits sum.splits)

lemma generateRaw_throws:
  "(generateRaw dialect now schema = Inl TypeError) = (\<exists>t\<in>set (raw_tables schema). raw_columns t = None)"
proof
  assume "generateRaw dialect now schema = Inl TypeError"
  show "\<exists>t\<in>set (raw_tables schema). raw_columns t = None"
  proof (rule ccontr)
    assume "\<not> (\<exists>t\<in>set (raw_tables schema). raw_columns t = None)"
    with copyRawTables_Inl[of "raw_tables schema"] obtain copies where
      "copyRawTables (raw_tables schema) = Inr copies" by (cases "copyRawTables (raw_tables schema)") auto
    from copyRawTables_Inr[OF this]
    have "schema = rawSchema \<lparr>tables = copies, relationships = raw_relationships schema\<rparr>"
      by (simp add: rawSchema_def)
    with generateRaw_typed[of dialect now "\<lparr>tables = copies, relationships = raw_relationships schema\<rparr>"]
      \<open>generateRaw dialect now schema = Inl TypeError\<close>
    show False by simp
  qed
next
  assume "\<exists>t\<in>set (raw_tables schema). raw_columns t = None"
  with copyRawTables_Inl[of "raw_tables schema"] obtain e where
    "copyRawTables (raw_tables schema) = Inl e" by auto
  then have "addForeignKeyFieldsRaw \<lparr>raw_tables = raw_tables schema, raw_relationships = rs\<rparr> = Inl TypeError" for rs
    by (cases e) (simp add: addForeignKeyFieldsRaw_def)
  then show "generateRaw dialect now schema = Inl TypeError"
    by (auto simp: generateRaw_def Let_def split: sum.splits intro: Exception.exhaust)
qed

text \<open>
  Claim C7 as stated fails twice. The header carries the time of the call, so two
  calls on the same schema and dialect that read different clock texts produce
  different texts. And \<open>generate\<close> throws a \<open>TypeError\<close> on a schema with a table object
  that has no \<open>columns\<close>.
\<close>

theorem generate_clock_counterexample:
  "generate ACCESS ''01.01.2025, 10:00:00'' ordersSchema \<noteq>
   generate ACCESS ''01.01.2025, 10:00:01'' ordersSchema \<and>
   generateRaw ACCESS ''01.01.2025, 10:00:00'' columnlessSchema = Inl TypeError"
  by (simp add: generate_sections generateHeader_def generateRaw_def columnlessSchema_def
      addForeignKeyFieldsRaw_def)

text \<open>
  Claim C7, amended. For every schema of the declared type, that is, one whose table
  objects all have their \<open>columns\<close> array, however incomplete it is otherwise (tables
  without primary key, relationships to missing tables, dangling column ids, 1:1 with
  no optional side), \<open>generate\<close> throws no exception and returns a text. The text is the
  header, which carries the dialect and the clock text of the call, followed by a body
  that depends on the schema alone (what is left of the text after the header is the
  same for every dialect and clock text); so, dialect and schema being equal, two
  calls produce the same text exactly when they read the same clock text.
\<close>

theorem generate_total_header_body:
  "generateRaw dialect now (rawSchema S) = Inr (generate dialect now S)
   \<and> generate dialect now S =
     generateHeader dialect now @ drop (length (generateHeader dialect' now')) (generate dialect' now' S)
   \<and> (generate dialect now S = generate dialect now' S) = (now = now')"
proof -
  define body where "body = ''\<newline>\<newline>'' @ junctionSection S @ createSection S @ alterSection S"
  have g: "generate d n S = generateHeader d n @ body" for d n
    by (simp add: generate_sections body_def)
  have "(generateHeader dialect now @ body = generateHeader dialect now' @ body) = (now = now')"
    by (simp add: generateHeader_def)
  then show ?thesis by (simp add: g generateRaw_typed)
qed

section \<open>Properties of the mode converter\<close>

text \<open>
  Claim C6. Converting a table to an entity and back gives a table with the same id
  and name whose columns have, position by position, the ids, names, logical types
  and primary-key flags of the original columns. (A table's columns know no other
  distinction than primary or not, so this holds for every table.)
\<close>

theorem logical_conceptual_roundtrip:
  "map (\<lambda>c. (col_id c, col_name c, col_type c, primaryKey c)) (columns (toLogical (toConceptual T))) =
   map (\<lambda>c. (col_id c, col_name c, col_type c, primaryKey c)) (columns T)
   \<and> tbl_id (toLogical (toConceptual T)) = tbl_id T
   \<and> tbl_name (toLogical (toConceptual T)) = tbl_name T"
  by (simp add: toLogical_def toConceptual_def comp_def)

section \<open>The input is not written (claim C8)\<close>

lemma unchangedBelow_refl: "unchangedBelow n st st"
  by (simp add: unchangedBelow_def)

lemma unchangedBelow_trans:
  "unchangedBelow n st st1 \<Longrightarrow> unchangedBelow n st1 st2 \<Longrightarrow> unchangedBelow n st st2"
  by (simp add: unchangedBelow_def)

lemma readTable_unchanged:
  "unchangedBelow n st st' \<Longrightarrow> t < n \<Longrightarrow> obj_columns (tableObjs st t) < n \<Longrightarrow>
   readTable st' t = readTable st t"
  by (simp add: unchangedBelow_def readTable_def)

lemma readTable_same:
  "tableObjs st' = tableObjs st \<Longrightarrow> columnArrays st' = columnArrays st \<Longrightarrow>
   readTable st' = readTable st"
  by (simp add: fun_eq_iff readTable_def)

lemma copyTable_spec:
  assumes "copyTable t st = (st', r)"
  shows "unchangedBelow (nextRef st) st st'" "nextRef st' = Suc (Suc (nextRef st))"
    "r = Suc (nextRef st)" "obj_columns (tableObjs st' r) = nextRef st"
    "t < nextRef st \<Longrightarrow> readTable st' r = readTable st t"
  using assms
  by (auto simp: copyTable_def newColumnArray_def newTableObj_def unchangedBelow_def readTable_def)

lemma copyTables_spec:
  assumes "allocated st ts" "copyTables ts st = (st', rs)"
  shows "map (readTable st') rs = map (readTable st) ts \<and> unchangedBelow (nextRef st) st st' \<and>
         nextRef st \<le> nextRef st' \<and> allocated st' rs \<and> (\<forall>r\<in>set rs. nextRef st \<le> r)"
  using assms
proof (induction ts arbitrary: st st' rs)
  case Nil
  then show ?case by (simp add: unchangedBelow_refl allocated_def)
next
  case (Cons t ts)
  obtain st1 r where c1: "copyTable t st = (st1, r)" by (cases "copyTable t st")
  obtain st2 rs' where c2: "copyTables ts st1 = (st2, rs')" by (cases "copyTables ts st1")
  from Cons.prems(2) c1 c2 have res: "st' = st2" "rs = r # rs'" by simp_all
  note s1 = copyTable_spec[OF c1]
  from Cons.prems(1) have t: "t < nextRef st" "obj_columns (tableObjs st t) < nextRef st"
    and ts: "allocated st ts" by (simp_all add: allocated_def)
  have a1: "allocated st1 ts"
    using ts s1(1,2) by (auto simp: allocated_def unchangedBelow_def)
  from Cons.IH[OF a1 c2] have ih:
    "map (readTable st2) rs' = map (readTable st1) ts" "unchangedBelow (nextRef st1) st1 st2"
    "nextRef st1 \<le> nextRef st2" "allocated st2 rs'" "\<forall>r\<in>set rs'. nextRef st1 \<le> r" by simp_all
  have u: "unchangedBelow (nextRef st) st st2"
    using s1(1) ih(2) s1(2) by (simp add: unchangedBelow_def)
  have "readTable st1 x = readTable st x" if "x \<in> set ts" for x
    using that ts s1(1) by (auto simp: allocated_def intro: readTable_unchanged)
  then have m: "map (readTable st1) ts = map (readTable st) ts" by simp
  have "readTable st2 r = readTable st1 r"
    using s1(4) by (intro readTable_unchanged[OF ih(2)]) (simp_all add: s1(2,3))
  with s1(5)[OF t(1)] have r: "readTable st2 r = readTable st t" by simp
  have "tableObjs st2 r = tableObjs st1 r" using ih(2) s1(2,3) by (simp add: unchangedBelow_def)
  then have ar: "r < nextRef st2 \<and> obj_columns (tableObjs st2 r) < nextRef st2"
    using s1(2,3,4) ih(3) by simp
  show ?case
    using res ih m r u ar s1(2,3) by (auto simp: allocated_def)
qed

lemma fkStepStore_spec:
  assumes tr: "tr < nextRef st" and al: "allocated st (tableArrays st tr)" and n: "n \<le> tr"
  shows "readTables (fkStepStore tr rel st) tr = fkStep rel (readTables st tr) \<and>
         unchangedBelow n st (fkStepStore tr rel st) \<and>
         nextRef st \<le> nextRef (fkStepStore tr rel st) \<and>
         allocated (fkStepStore tr rel st) (tableArrays (fkStepStore tr rel st) tr) \<and>
         schemaObjs (fkStepStore tr rel st) = schemaObjs st \<and>
         relArrays (fkStepStore tr rel st) = relArrays st"
proof (cases "fkDecision rel (readTables st tr)")
  case None
  then show ?thesis using al by (simp add: fkStepStore_def fkStep_def unchangedBelow_refl)
next
  case (Some a)
  then obtain i c where d: "fkDecision rel (readTables st tr) = Some (i, c)" by (cases a) simp
  define arr where "arr = tableArrays st tr"
  define k where "k = nextRef st"
  define old where "old = arr ! i"
  define st' where "st' = fkStepStore tr rel st"
  from fkDecision_index[OF d] have i: "i < length arr" by (simp add: readTables_def arr_def)
  have st'_eq: "st' = st\<lparr>columnArrays := (columnArrays st)(k := columnArrays st (obj_columns (tableObjs st old)) @ [c]),
                        nextRef := Suc (Suc k),
                        tableObjs := (tableObjs st)(Suc k := (tableObjs st old)\<lparr>obj_columns := k\<rparr>),
                        tableArrays := (tableArrays st)(tr := arr[i := Suc k])\<rparr>"
    unfolding st'_def fkStepStore_def d
    by (simp add: newColumnArray_def newTableObj_def Let_def arr_def k_def old_def)
  from al have old_al: "x < k \<and> obj_columns (tableObjs st x) < k" if "x \<in> set arr" for x
    using that by (simp add: allocated_def arr_def k_def)
  have keep: "readTable st' x = readTable st x" if "x \<in> set arr" for x
    using old_al[OF that] by (simp add: st'_eq readTable_def)
  have new: "readTable st' (Suc k) =
             (readTable st old)\<lparr>columns := columns (readTable st old) @ [c]\<rparr>"
    by (simp add: st'_eq readTable_def)
  have "readTables st' tr = map (readTable st') (arr[i := Suc k])"
    by (simp add: readTables_def st'_eq)
  also have "\<dots> = (map (readTable st') arr)[i := readTable st' (Suc k)]"
    by (simp add: map_update)
  also have "map (readTable st') arr = map (readTable st) arr"
    using keep by simp
  finally have rt: "readTables st' tr =
      (map (readTable st) arr)[i := (readTable st old)\<lparr>columns := columns (readTable st old) @ [c]\<rparr>]"
    by (simp add: new)
  have "fkStep rel (readTables st tr) =
      (map (readTable st) arr)[i := (readTable st old)\<lparr>columns := columns (readTable st old) @ [c]\<rparr>]"
    using i d by (simp add: fkStep_def readTables_def arr_def[symmetric] old_def)
  with rt have 1: "readTables st' tr = fkStep rel (readTables st tr)" by simp
  have 2: "unchangedBelow n st st'"
    using n tr by (simp add: unchangedBelow_def st'_eq k_def)
  have 3: "nextRef st \<le> nextRef st'" by (simp add: st'_eq k_def)
  have "x < nextRef st' \<and> obj_columns (tableObjs st' x) < nextRef st'"
    if "x \<in> set (arr[i := Suc k])" for x
  proof (cases "x = Suc k")
    case True then show ?thesis by (simp add: st'_eq)
  next
    case False
    with that set_update_subset_insert[of arr i "Suc k"] have "x \<in> set arr" by auto
    from old_al[OF this] show ?thesis by (auto simp: st'_eq)
  qed
  then have 4: "allocated st' (tableArrays st' tr)"
    by (simp add: allocated_def st'_eq)
  have 5: "schemaObjs st' = schemaObjs st" "relArrays st' = relArrays st" by (simp_all add: st'_eq)
  from 1 2 3 4 5 show ?thesis by (simp add: st'_def)
qed

lemma fkLoopStore_spec:
  assumes "tr < nextRef st" "allocated st (tableArrays st tr)" "n \<le> tr"
  shows "readTables (foldl (\<lambda>acc rel. fkStepStore tr rel acc) st rels) tr = fkLoop rels (readTables st tr) \<and>
         unchangedBelow n st (foldl (\<lambda>acc rel. fkStepStore tr rel acc) st rels) \<and>
         nextRef st \<le> nextRef (foldl (\<lambda>acc rel. fkStepStore tr rel acc) st rels) \<and>
         schemaObjs (foldl (\<lambda>acc rel. fkStepStore tr rel acc) st rels) = schemaObjs st \<and>
         relArrays (foldl (\<lambda>acc rel. fkStepStore tr rel acc) st rels) = relArrays st"
  using assms
proof (induction rels arbitrary: st)
  case Nil
  then show ?case by (simp add: fkLoop_Nil unchangedBelow_refl)
next
  case (Cons r rs)
  note s = fkStepStore_spec[OF Cons.prems, of r]
  from s Cons.prems(1) have tr': "tr < nextRef (fkStepStore tr r st)" by simp
  from s have al': "allocated (fkStepStore tr r st) (tableArrays (fkStepStore tr r st) tr)" by simp
  from Cons.IH[OF tr' al' Cons.prems(3)] s show ?case
    by (auto simp: fkLoop_Cons intro: unchangedBelow_trans)
qed

text \<open>
  On the store, the function refines the function on values and writes no cell that
  existed before the call.
\<close>

lemma store_frame:
  assumes wf: "wellFormed st schema"
  shows "case addForeignKeyFieldsStore schema st of (st', result) \<Rightarrow>
           unchangedBelow (nextRef st) st st' \<and>
           readSchema st' schema = readSchema st schema \<and>
           nextRef st \<le> result \<and> nextRef st \<le> so_tables (schemaObjs st' result) \<and>
           so_relationships (schemaObjs st' result) = so_relationships (schemaObjs st schema) \<and>
           readSchema st' result = addForeignKeyFields (readSchema st schema)"
proof -
  define ta where "ta = so_tables (schemaObjs st schema)"
  obtain st1 copies where c: "copyTables (tableArrays st ta) st = (st1, copies)"
    by (cases "copyTables (tableArrays st ta) st")
  from wf have s: "schema < nextRef st" and t: "ta < nextRef st"
    and rr: "so_relationships (schemaObjs st schema) < nextRef st"
    and al: "allocated st (tableArrays st ta)"
    by (simp_all add: wellFormed_def ta_def)
  from copyTables_spec[OF al c] have c1:
    "map (readTable st1) copies = map (readTable st) (tableArrays st ta)"
    "unchangedBelow (nextRef st) st st1" "nextRef st \<le> nextRef st1" "allocated st1 copies" by simp_all
  define tr where "tr = nextRef st1"
  define st2 where "st2 = st1\<lparr>tableArrays := (tableArrays st1)(tr := copies), nextRef := Suc tr\<rparr>"
  have u2: "unchangedBelow (nextRef st) st st2"
    using c1(2,3) by (simp add: unchangedBelow_def st2_def tr_def)
  have al2: "allocated st2 (tableArrays st2 tr)"
    using c1(4) by (auto simp: allocated_def st2_def tr_def)
  have tr2: "tr < nextRef st2" by (simp add: st2_def)
  have ntr: "nextRef st \<le> tr" using c1(3) by (simp add: tr_def)
  have rt2: "readTables st2 tr = tables (readSchema st schema)"
    using c1(1) readTable_same[of st2 st1]
    by (simp add: readTables_def st2_def readSchema_def ta_def)
  define rels where "rels = relArrays st2 (so_relationships (schemaObjs st2 schema))"
  have rels_eq: "rels = relationships (readSchema st schema)"
    using u2 s rr by (simp add: rels_def unchangedBelow_def readSchema_def)
  define st3 where "st3 = foldl (\<lambda>acc rel. fkStepStore tr rel acc) st2 rels"
  from fkLoopStore_spec[OF tr2 al2 ntr, of rels] have l:
    "readTables st3 tr = fkLoop rels (readTables st2 tr)" "unchangedBelow (nextRef st) st2 st3"
    "nextRef st2 \<le> nextRef st3" "schemaObjs st3 = schemaObjs st2" "relArrays st3 = relArrays st2"
    by (simp_all add: st3_def)
  have u3: "unchangedBelow (nextRef st) st st3" using u2 l(2) by (rule unchangedBelow_trans)
  define res where "res = nextRef st3"
  define st4 where "st4 = st3\<lparr>schemaObjs := (schemaObjs st3)
      (res := \<lparr>so_tables = tr, so_relationships = so_relationships (schemaObjs st3 schema)\<rparr>),
      nextRef := Suc res\<rparr>"
  have run: "addForeignKeyFieldsStore schema st = (st4, res)"
    by (simp add: addForeignKeyFieldsStore_def c[unfolded ta_def] newTableArray_def newSchemaObj_def
        Let_def st4_def res_def st3_def rels_def st2_def tr_def)
  have nres: "nextRef st \<le> res" using c1(3) l(3) by (simp add: res_def st2_def tr_def)
  have u4: "unchangedBelow (nextRef st) st st4"
    using u3 nres by (simp add: unchangedBelow_def st4_def)
  have so3: "schemaObjs st3 schema = schemaObjs st schema"
    using u3 s by (simp add: unchangedBelow_def)
  have in_same: "readSchema st4 schema = readSchema st schema"
  proof -
    have "readTable st4 x = readTable st x" if "x \<in> set (tableArrays st ta)" for x
      using that al by (intro readTable_unchanged[OF u4]) (simp_all add: allocated_def)
    then show ?thesis
      using u4 s t rr by (simp add: readSchema_def readTables_def unchangedBelow_def ta_def)
  qed
  have "readTables st4 tr = readTables st3 tr"
    using readTable_same[of st4 st3] by (simp add: readTables_def st4_def)
  moreover have "relArrays st4 (so_relationships (schemaObjs st schema)) = rels"
    using l(5) u2 s by (simp add: st4_def rels_def unchangedBelow_def)
  ultimately have out: "readSchema st4 res = addForeignKeyFields (readSchema st schema)"
    using l(1) rt2 rels_eq so3 by (simp add: readSchema_def addForeignKeyFields_def st4_def)
  have "so_tables (schemaObjs st4 res) = tr" "so_relationships (schemaObjs st4 res) = so_relationships (schemaObjs st schema)"
    using so3 by (simp_all add: st4_def)
  with u4 in_same nres ntr out show ?thesis by (simp add: run)
qed

text \<open>
  Claim C8. On the store: for a well-formed input schema, every cell allocated before
  the call (the input schema object, its tables array, every table object and every
  column array among them) holds after the call what it held before, so the input
  reads as the same schema; the result is a new schema object with a new tables array
  and the relationships array of the input; and the result reads as the value
  \<open>addForeignKeyFields\<close> computes from the input. On values: the result has the
  relationships of the input and its tables, in order, each with zero or more columns
  appended after the columns it had; every appended column is the foreign-key column
  of a relationship that the placement rule puts on this table, so a table that is no
  relationship's destination is unchanged; and no more columns are added than there
  are relationships.
\<close>

theorem fk_resolution_frame:
  assumes "wellFormed st schema"
  shows "(case addForeignKeyFieldsStore schema st of (st', result) \<Rightarrow>
            unchangedBelow (nextRef st) st st' \<and>
            readSchema st' schema = readSchema st schema \<and>
            nextRef st \<le> result \<and> nextRef st \<le> so_tables (schemaObjs st' result) \<and>
            so_relationships (schemaObjs st' result) = so_relationships (schemaObjs st schema) \<and>
            readSchema st' result = addForeignKeyFields (readSchema st schema))
       \<and> relationships (addForeignKeyFields S) = relationships S
       \<and> length (tables (addForeignKeyFields S)) = length (tables S)
       \<and> (\<forall>i<length (tables S). \<exists>extra.
            tables (addForeignKeyFields S) ! i =
              (tables S ! i)\<lparr>columns := columns (tables S ! i) @ extra\<rparr> \<and>
            (\<forall>c\<in>set extra. \<exists>rel\<in>set (relationships S). \<exists>pk.
               placementOf rel (tables S) = Some (tbl_id (tables S ! i), pk) \<and>
               c = fkColumn rel (tbl_id (tables S ! i)) (col_name pk) pk))
       \<and> (\<Sum>t\<leftarrow>tables (addForeignKeyFields S). length (columns t))
           \<le> (\<Sum>t\<leftarrow>tables S. length (columns t)) + length (relationships S)"
proof (intro conjI allI impI)
  show "case addForeignKeyFieldsStore schema st of (st', result) \<Rightarrow>
            unchangedBelow (nextRef st) st st' \<and>
            readSchema st' schema = readSchema st schema \<and>
            nextRef st \<le> result \<and> nextRef st \<le> so_tables (schemaObjs st' result) \<and>
            so_relationships (schemaObjs st' result) = so_relationships (schemaObjs st schema) \<and>
            readSchema st' result = addForeignKeyFields (readSchema st schema)"
    by (rule store_frame[OF assms])
next
  show "relationships (addForeignKeyFields S) = relationships S"
    by (simp add: addForeignKeyFields_def)
next
  show "length (tables (addForeignKeyFields S)) = length (tables S)"
    using extends_length[OF fkLoop_extends_any] by (simp add: addForeignKeyFields_tables)
next
  fix i assume i: "i < length (tables S)"
  from extends_nth[OF fkLoop_extends i, of "relationships S"]
  show "\<exists>extra.
          tables (addForeignKeyFields S) ! i =
            (tables S ! i)\<lparr>columns := columns (tables S ! i) @ extra\<rparr> \<and>
          (\<forall>c\<in>set extra. \<exists>rel\<in>set (relationships S). \<exists>pk.
             placementOf rel (tables S) = Some (tbl_id (tables S ! i), pk) \<and>
             c = fkColumn rel (tbl_id (tables S ! i)) (col_name pk) pk)"
    unfolding grows_def fkColumnOf_def addForeignKeyFields_tables by blast
next
  show "(\<Sum>t\<leftarrow>tables (addForeignKeyFields S). length (columns t))
           \<le> (\<Sum>t\<leftarrow>tables S. length (columns t)) + length (relationships S)"
    by (simp add: addForeignKeyFields_tables sum_columns_fkLoop)
qed

text \<open>
  The theorem at \<open>ordersStore\<close>: after the call the input still reads as
  \<open>ordersSchema\<close>, its tables array and the column array of Orders are what they were,
  and the result reads as the resolved schema.
\<close>

theorem fk_resolution_frame_witness:
  "wellFormed ordersStore 6 \<and>
   (case addForeignKeyFieldsStore 6 ordersStore of (st', result) \<Rightarrow>
      readSchema st' 6 = ordersSchema \<and> tableArrays st' 4 = [2, 3] \<and>
      columnArrays st' 1 = [pkColumn ''c2'' ''order_id'' AUTOINCREMENT] \<and>
      7 \<le> result \<and> readSchema st' result = addForeignKeyFields ordersSchema)"
proof -
  have wf: "wellFormed ordersStore 6"
    by (simp add: wellFormed_def allocated_def ordersStore_def)
  have rs: "readSchema ordersStore 6 = ordersSchema"
    by (simp add: readSchema_def readTables_def readTable_def ordersStore_def ordersSchema_def
        scenario_defs)
  have n: "nextRef ordersStore = 7" "tableArrays ordersStore 4 = [2, 3]"
    "columnArrays ordersStore 1 = [pkColumn ''c2'' ''order_id'' AUTOINCREMENT]"
    by (simp_all add: ordersStore_def)
  obtain st' result where run: "addForeignKeyFieldsStore 6 ordersStore = (st', result)"
    by (cases "addForeignKeyFieldsStore 6 ordersStore")
  from fk_resolution_frame[OF wf, of ordersSchema] run
  have f: "unchangedBelow 7 ordersStore st'" "readSchema st' 6 = ordersSchema" "7 \<le> result"
    "readSchema st' result = addForeignKeyFields ordersSchema"
    by (simp_all add: rs n)
  from f(1) n have "tableArrays st' 4 = [2, 3]"
    "columnArrays st' 1 = [pkColumn ''c2'' ''order_id'' AUTOINCREMENT]"
    by (simp_all add: unchangedBelow_def)
  with wf f show ?thesis by (simp add: run)
qed

end
